theory Spec2Isabelle
  imports Main "HOL-Library.Multiset"
begin

section \<open>JavaScript values handled by the middleware engine\<close>

text \<open>
  The engine of \<^verbatim>\<open>src/api.ts\<close> and \<^verbatim>\<open>src/pages.ts\<close> looks at what a layer returns with
  four operations only: \<^verbatim>\<open>=== undefined\<close>, the \<^verbatim>\<open>in\<close> operator, property reads followed
  by a truthiness test, and \<^verbatim>\<open>Object.assign\<close>. Values are modelled as far as these
  operations can tell them apart. An object is the finite map of its own enumerable
  string-keyed data properties (prototype accessors such as \<^verbatim>\<open>__proto__\<close> are outside the
  model); numbers are integers, since only the test against zero matters.
\<close>

datatype jsval =
    Undefined
  | Null
  | Bool bool
  | Num int
  | Str string
  | Obj "string \<Rightarrow> jsval option"

type_synonym obj = "string \<Rightarrow> jsval option"

datatype error =
    TypeError
  | Thrown jsval

text \<open>Truthiness, as \<^verbatim>\<open>if (v)\<close> and \<^verbatim>\<open>a && b\<close> test it.\<close>

fun truthy :: "jsval \<Rightarrow> bool" where
  "truthy Undefined = False"
| "truthy Null = False"
| "truthy (Bool b) = b"
| "truthy (Num n) = (n \<noteq> 0)"
| "truthy (Str s) = (s \<noteq> [])"
| "truthy (Obj m) = True"

text \<open>
  \<^verbatim>\<open>key in v\<close>: true when the object has the key; a \<^verbatim>\<open>TypeError\<close> when \<^verbatim>\<open>v\<close> is not an
  object.
\<close>

fun js_in :: "string \<Rightarrow> jsval \<Rightarrow> error + bool" where
  "js_in k (Obj m) = Inr (m k \<noteq> None)"
| "js_in k v = Inl TypeError"

text \<open>
  \<^verbatim>\<open>v.key\<close>: the stored value of an object, \<^verbatim>\<open>undefined\<close> for a key it does not have;
  a \<^verbatim>\<open>TypeError\<close> on \<^verbatim>\<open>undefined\<close> and \<^verbatim>\<open>null\<close>. The engine reads the keys
  \<^verbatim>\<open>stop\<close>, \<^verbatim>\<open>data\<close> and \<^verbatim>\<open>props\<close> only, which no boolean, number or string has.
\<close>

fun js_get :: "jsval \<Rightarrow> string \<Rightarrow> error + jsval" where
  "js_get (Obj m) k = Inr (case m k of None \<Rightarrow> Undefined | Some v \<Rightarrow> v)"
| "js_get Undefined k = Inl TypeError"
| "js_get Null k = Inl TypeError"
| "js_get v k = Inr Undefined"

text \<open>Decimal rendering of an array index, used for the index keys of a string.\<close>

fun dec :: "nat \<Rightarrow> string" where
  "dec n = (if n < 10 then [char_of (48 + n)] else dec (n div 10) @ [char_of (48 + n mod 10)])"

declare dec.simps [simp del]

text \<open>
  The own enumerable properties of a value, which \<^verbatim>\<open>Object.assign\<close> reads out of a
  source: all entries of an object, the indexed characters of a string, nothing for
  \<^verbatim>\<open>undefined\<close>, \<^verbatim>\<open>null\<close>, booleans and numbers.
\<close>

fun own_entries :: "jsval \<Rightarrow> obj" where
  "own_entries (Obj m) = m"
| "own_entries (Str s) = map_of (zip (map dec [0..<length s]) (map (\<lambda>c. Str [c]) s))"
| "own_entries v = Map.empty"

text \<open>
  \<^verbatim>\<open>Object.assign\<close> writes each entry with an ordinary assignment
  \<^verbatim>\<open>target[key] = value\<close>. For the key \<^verbatim>\<open>__proto__\<close> (an own key of the source when it
  comes from \<^verbatim>\<open>JSON.parse\<close>) the assignment runs the setter of \<^verbatim>\<open>Object.prototype\<close>:
  no own property is created in the target. The entries that become own properties of the
  target are therefore the own entries of the source without that key.
  The setter may replace the prototype of the target; prototypes are not part of a
  \<^verbatim>\<open>jsval\<close>, so what a target inherits afterwards is outside the model.
\<close>

definition copied_entries :: "jsval \<Rightarrow> obj" where
  "copied_entries source = (own_entries source)(''__proto__'' := None)"

text \<open>
  \<^verbatim>\<open>Object.assign(target, source)\<close>: every copied key is written into the target,
  the other keys of the target stay as they are.
\<close>

definition object_assign :: "obj \<Rightarrow> jsval \<Rightarrow> obj" where
  "object_assign target source = target ++ copied_entries source"

section \<open>The api flavor: \<^verbatim>\<open>ApiMiddlewareFactory\<close>\<close>

text \<open>
  A layer is called with \<^verbatim>\<open>{ req, res, data }\<close>. The request and response handles are
  opaque; whatever a layer does to them or to any other state outside the engine is a
  change of the world \<open>'w\<close>. A layer returns a value or throws; the awaited value of a
  promise stands for the promise, and a layer that never settles is not modelled. A layer
  is given the accumulator as a value: it contributes by what it returns, and a layer
  body assigning to the \<^verbatim>\<open>data\<close> object it was handed is outside the model.
\<close>

type_synonym ('rq, 'rs, 'w) api_layer =
  "'rq \<Rightarrow> 'rs \<Rightarrow> obj \<Rightarrow> 'w \<Rightarrow> (error + jsval) \<times> 'w"

text \<open>
  The record of one invocation, kept beside the run: which layer was called (its position
  in the chain), the \<^verbatim>\<open>data\<close> it was given and what it returned; and the same for the
  final handler.
\<close>

datatype api_event =
    ApiLayerCall nat obj "error + jsval"
  | ApiHandlerCall obj "error + jsval"

text \<open>How the \<^verbatim>\<open>for\<close> loop over the layers is left.\<close>

datatype flow =
    Raise error
  | Return jsval
  | Next

text \<open>The test \<^verbatim>\<open>"stop" in result && result.stop\<close> (api.ts, line 46).\<close>

definition api_stop :: "jsval \<Rightarrow> error + bool" where
  "api_stop result =
     (case js_in ''stop'' result of
        Inl e \<Rightarrow> Inl e
      | Inr present \<Rightarrow>
          if present then (case js_get result ''stop'' of Inl e \<Rightarrow> Inl e | Inr v \<Rightarrow> Inr (truthy v))
          else Inr False)"

text \<open>The statement \<^verbatim>\<open>if ("data" in result) Object.assign(data, result.data)\<close> (line 48).\<close>

definition api_merge :: "obj \<Rightarrow> jsval \<Rightarrow> error + obj" where
  "api_merge data result =
     (case js_in ''data'' result of
        Inl e \<Rightarrow> Inl e
      | Inr present \<Rightarrow>
          if present
          then (case js_get result ''data'' of Inl e \<Rightarrow> Inl e | Inr v \<Rightarrow> Inr (object_assign data v))
          else Inr data)"

text \<open>Putting a call in front of the record of the calls that follow it.\<close>

definition api_logged ::
  "api_event \<Rightarrow> flow \<times> obj \<times> 'w \<times> api_event list \<Rightarrow> flow \<times> obj \<times> 'w \<times> api_event list" where
  "api_logged ev run = (case run of (f, data, w, evs) \<Rightarrow> (f, data, w, ev # evs))"

text \<open>
  The loop of \<^verbatim>\<open>handler\<close> (api.ts, lines 43 to 49), from the layer at position \<open>i\<close> on.
  The result holds how the loop was left, the \<^verbatim>\<open>data\<close> object, the world at that moment
  and the record of the calls made.
\<close>

fun api_layers ::
  "('rq, 'rs, 'w) api_layer list \<Rightarrow> nat \<Rightarrow> 'rq \<Rightarrow> 'rs \<Rightarrow> obj \<Rightarrow> 'w
    \<Rightarrow> flow \<times> obj \<times> 'w \<times> api_event list" where
  "api_layers [] i req res data w = (Next, data, w, [])"
| "api_layers (layer # rest) i req res data w =
     (case layer req res data w of
        (Inl e, w') \<Rightarrow> (Raise e, data, w', [ApiLayerCall i data (Inl e)])
      | (Inr result, w') \<Rightarrow>
          api_logged (ApiLayerCall i data (Inr result))
            (if result = Undefined then api_layers rest (Suc i) req res data w'
             else
               (case api_stop result of
                  Inl e \<Rightarrow> (Raise e, data, w', [])
                | Inr stop \<Rightarrow>
                    if stop then (Return Undefined, data, w', [])
                    else
                      (case api_merge data result of
                         Inl e \<Rightarrow> (Raise e, data, w', [])
                       | Inr data' \<Rightarrow> api_layers rest (Suc i) req res data' w'))))"

text \<open>
  The final handler \<^verbatim>\<open>fn\<close> is called with \<^verbatim>\<open>{ req, res, data }\<close> as a layer is.
  The async function that \<^verbatim>\<open>handler\<close> returns (lines 40 to 52), over the layers the
  factory holds: a fresh empty \<^verbatim>\<open>data\<close>, the loop, then \<^verbatim>\<open>return await fn(...)\<close>.
  The result is the settled promise (fulfilled with a value or rejected with an error), the
  \<^verbatim>\<open>data\<close> object as the function leaves it, the world and the record of calls.
\<close>

definition api_closure ::
  "('rq, 'rs, 'w) api_layer list \<Rightarrow> ('rq, 'rs, 'w) api_layer \<Rightarrow> 'rq \<Rightarrow> 'rs \<Rightarrow> 'w
    \<Rightarrow> (error + jsval) \<times> obj \<times> 'w \<times> api_event list" where
  "api_closure layers fn req res w =
     (case api_layers layers 0 req res Map.empty w of
        (Raise e, data, w', evs) \<Rightarrow> (Inl e, data, w', evs)
      | (Return v, data, w', evs) \<Rightarrow> (Inr v, data, w', evs)
      | (Next, data, w', evs) \<Rightarrow>
          (case fn req res data w' of
             (r, w'') \<Rightarrow> (r, data, w'', evs @ [ApiHandlerCall data r])))"

section \<open>The page flavor: \<^verbatim>\<open>PageMiddlewareFactory\<close>\<close>

text \<open>
  A page layer is called with \<^verbatim>\<open>{ ctx, data, props }\<close>; the context \<^verbatim>\<open>ctx\<close> is opaque.
  The text of \<^verbatim>\<open>pages.ts\<close> stands at the end of \<^verbatim>\<open>tests/pages.test.ts\<close>; the line
  numbers below are those of that file.
\<close>

type_synonym ('c, 'w) page_layer =
  "'c \<Rightarrow> obj \<Rightarrow> obj \<Rightarrow> 'w \<Rightarrow> (error + jsval) \<times> 'w"

datatype page_event =
    PageLayerCall nat obj obj "error + jsval"
  | PageHandlerCall obj obj "error + jsval"

text \<open>The test \<^verbatim>\<open>"notFound" in res || "redirect" in res\<close> (lines 775 and 783).\<close>

definition page_terminal :: "jsval \<Rightarrow> error + bool" where
  "page_terminal res =
     (case js_in ''notFound'' res of
        Inl e \<Rightarrow> Inl e
      | Inr present \<Rightarrow> if present then Inr True else js_in ''redirect'' res)"

text \<open>
  The statement \<^verbatim>\<open>if (res.key) Object.assign(acc, res.key)\<close> for \<^verbatim>\<open>key\<close> one of
  \<^verbatim>\<open>data\<close> and \<^verbatim>\<open>props\<close> (lines 777 and 778).
\<close>

definition page_merge :: "obj \<Rightarrow> jsval \<Rightarrow> string \<Rightarrow> error + obj" where
  "page_merge acc res key =
     (case js_get res key of
        Inl e \<Rightarrow> Inl e
      | Inr v \<Rightarrow> Inr (if truthy v then object_assign acc v else acc))"

definition page_logged ::
  "page_event \<Rightarrow> flow \<times> obj \<times> obj \<times> 'w \<times> page_event list
    \<Rightarrow> flow \<times> obj \<times> obj \<times> 'w \<times> page_event list" where
  "page_logged ev run = (case run of (f, data, props, w, evs) \<Rightarrow> (f, data, props, w, ev # evs))"

text \<open>The loop of \<^verbatim>\<open>handler\<close> (lines 772 to 779), from the layer at position \<open>i\<close> on.\<close>

fun page_layers ::
  "('c, 'w) page_layer list \<Rightarrow> nat \<Rightarrow> 'c \<Rightarrow> obj \<Rightarrow> obj \<Rightarrow> 'w
    \<Rightarrow> flow \<times> obj \<times> obj \<times> 'w \<times> page_event list" where
  "page_layers [] i ctx data props w = (Next, data, props, w, [])"
| "page_layers (layer # rest) i ctx data props w =
     (case layer ctx data props w of
        (Inl e, w') \<Rightarrow> (Raise e, data, props, w', [PageLayerCall i data props (Inl e)])
      | (Inr res, w') \<Rightarrow>
          page_logged (PageLayerCall i data props (Inr res))
            (case page_terminal res of
               Inl e \<Rightarrow> (Raise e, data, props, w', [])
             | Inr terminal \<Rightarrow>
                 if terminal then (Return res, data, props, w', [])
                 else
                   (case page_merge data res ''data'' of
                      Inl e \<Rightarrow> (Raise e, data, props, w', [])
                    | Inr data' \<Rightarrow>
                        (case page_merge props res ''props'' of
                           Inl e \<Rightarrow> (Raise e, data', props, w', [])
                         | Inr props' \<Rightarrow> page_layers rest (Suc i) ctx data' props' w'))))"

text \<open>The object \<^verbatim>\<open>{ props: props }\<close> that a completed page run returns (line 788).\<close>

definition props_result :: "obj \<Rightarrow> jsval" where
  "props_result props = Obj [''props'' \<mapsto> Obj props]"

text \<open>
  The final step of the page closure (lines 781 to 788): \<^verbatim>\<open>fn\<close> is optional; when it is
  given, a terminal result is returned as it is, and otherwise
  \<^verbatim>\<open>Object.assign(props, await res.props)\<close> runs without a truthiness test.
\<close>

definition page_final ::
  "('c, 'w) page_layer option \<Rightarrow> 'c \<Rightarrow> obj \<Rightarrow> obj \<Rightarrow> 'w \<Rightarrow> page_event list
    \<Rightarrow> (error + jsval) \<times> obj \<times> obj \<times> 'w \<times> page_event list" where
  "page_final fn ctx data props w evs =
     (case fn of
        None \<Rightarrow> (Inr (props_result props), data, props, w, evs)
      | Some f \<Rightarrow>
          (case f ctx data props w of
             (Inl e, w') \<Rightarrow> (Inl e, data, props, w', evs @ [PageHandlerCall data props (Inl e)])
           | (Inr res, w') \<Rightarrow>
               (let evs' = evs @ [PageHandlerCall data props (Inr res)] in
                case page_terminal res of
                  Inl e \<Rightarrow> (Inl e, data, props, w', evs')
                | Inr terminal \<Rightarrow>
                    if terminal then (Inr res, data, props, w', evs')
                    else
                      (case js_get res ''props'' of
                         Inl e \<Rightarrow> (Inl e, data, props, w', evs')
                       | Inr v \<Rightarrow>
                           (let props' = object_assign props v
                            in (Inr (props_result props'), data, props', w', evs'))))))"

text \<open>The async function that \<^verbatim>\<open>handler\<close> returns (lines 768 to 789).\<close>

definition page_closure ::
  "('c, 'w) page_layer list \<Rightarrow> ('c, 'w) page_layer option \<Rightarrow> 'c \<Rightarrow> 'w
    \<Rightarrow> (error + jsval) \<times> obj \<times> obj \<times> 'w \<times> page_event list" where
  "page_closure layers fn ctx w =
     (case page_layers layers 0 ctx Map.empty Map.empty w of
        (Raise e, data, props, w', evs) \<Rightarrow> (Inl e, data, props, w', evs)
      | (Return v, data, props, w', evs) \<Rightarrow> (Inr v, data, props, w', evs)
      | (Next, data, props, w', evs) \<Rightarrow> page_final fn ctx data props w' evs)"

section \<open>The factories and the arrays they hold\<close>

text \<open>
  A factory object has one field, \<^verbatim>\<open>layers\<close>, a reference to an array of layers.
  The store maps the address of each allocated array to its contents; a new array gets
  the next free address. \<^verbatim>\<open>use\<close> is the same code in both classes.
\<close>

type_synonym 'l store = "'l list list"

datatype factory = Factory (layers: nat)

text \<open>The constructor: \<^verbatim>\<open>this.layers = layers ?? []\<close>.\<close>

definition new_factory :: "nat option \<Rightarrow> 'l store \<Rightarrow> factory \<times> 'l store" where
  "new_factory arg h =
     (case arg of
        Some a \<Rightarrow> (Factory a, h)
      | None \<Rightarrow> (Factory (length h), h @ [[]]))"




definition serverMiddleware :: "('c, 'w) page_layer store \<Rightarrow> factory \<times> ('c, 'w) page_layer store" where
  "serverMiddleware h = new_factory None h"

definition staticMiddleware :: "('c, 'w) page_layer store \<Rightarrow> factory \<times> ('c, 'w) page_layer store" where
  "staticMiddleware h = new_factory None h"



section \<open>Reading the record of calls\<close>

text \<open>
  Which layer a recorded call went to (\<open>None\<close> for the final handler), the accumulators
  it was given, and the value it returned (\<^verbatim>\<open>undefined\<close> stands in when it threw).
\<close>

fun api_called :: "api_event \<Rightarrow> nat option" where
  "api_called (ApiLayerCall i data r) = Some i"
| "api_called (ApiHandlerCall data r) = None"

fun api_given :: "api_event \<Rightarrow> obj" where
  "api_given (ApiLayerCall i data r) = data"
| "api_given (ApiHandlerCall data r) = data"

fun returned :: "error + jsval \<Rightarrow> jsval" where
  "returned (Inr v) = v"
| "returned (Inl e) = Undefined"

fun api_returned :: "api_event \<Rightarrow> jsval" where
  "api_returned (ApiLayerCall i data r) = returned r"
| "api_returned (ApiHandlerCall data r) = returned r"

fun page_called :: "page_event \<Rightarrow> nat option" where
  "page_called (PageLayerCall i data props r) = Some i"
| "page_called (PageHandlerCall data props r) = None"

fun page_given_data :: "page_event \<Rightarrow> obj" where
  "page_given_data (PageLayerCall i data props r) = data"
| "page_given_data (PageHandlerCall data props r) = data"

fun page_given_props :: "page_event \<Rightarrow> obj" where
  "page_given_props (PageLayerCall i data props r) = props"
| "page_given_props (PageHandlerCall data props r) = props"

fun page_returned :: "page_event \<Rightarrow> jsval" where
  "page_returned (PageLayerCall i data props r) = returned r"
| "page_returned (PageHandlerCall data props r) = returned r"

text \<open>
  The partial a layer's result carries for the accumulator \<open>key\<close> (\<^verbatim>\<open>data\<close> or
  \<^verbatim>\<open>props\<close>): the value of \<^verbatim>\<open>result.key\<close>, \<^verbatim>\<open>undefined\<close> when there is none.
\<close>

fun field :: "string \<Rightarrow> jsval \<Rightarrow> jsval" where
  "field key (Obj m) = (case m key of None \<Rightarrow> Undefined | Some v \<Rightarrow> v)"
| "field key v = Undefined"

text \<open>
  What a layer's result contributes to the accumulator \<open>key\<close>: the entries that
  \<^verbatim>\<open>Object.assign\<close> makes own properties of the accumulator out of \<^verbatim>\<open>result.key\<close>.
\<close>

fun contribution :: "string \<Rightarrow> jsval \<Rightarrow> obj" where
  "contribution key (Obj m) = (case m key of None \<Rightarrow> Map.empty | Some v \<Rightarrow> copied_entries v)"
| "contribution key v = Map.empty"

text \<open>
  Contributions with pairwise disjoint keys: no key is set by two different members of
  the sequence.
\<close>

definition disjoint_keys :: "obj list \<Rightarrow> bool" where
  "disjoint_keys ps =
     (\<forall>a<length ps. \<forall>b<length ps. a \<noteq> b \<longrightarrow> dom (ps ! a) \<inter> dom (ps ! b) = {})"

section \<open>Layers of the test suites\<close>

text \<open>
  \<^verbatim>\<open>() => {}\<close>, \<^verbatim>\<open>() => ({})\<close>, \<^verbatim>\<open>() => ({ stop: true })\<close>,
  \<^verbatim>\<open>() => ({ notFound: true })\<close>, and layers returning a fixed \<^verbatim>\<open>data\<close> or
  \<^verbatim>\<open>props\<close> object. Each layer counts its call in the world, as the tests do with
  \<^verbatim>\<open>i++\<close>.
\<close>

definition api_const :: "jsval \<Rightarrow> (unit, unit, nat) api_layer" where
  "api_const v req res data w = (Inr v, Suc w)"

definition page_const :: "jsval \<Rightarrow> (unit, nat) page_layer" where
  "page_const v ctx data props w = (Inr v, Suc w)"

definition with_data :: "obj \<Rightarrow> jsval" where
  "with_data m = Obj [''data'' \<mapsto> Obj m]"

definition with_props :: "obj \<Rightarrow> jsval" where
  "with_props m = Obj [''props'' \<mapsto> Obj m]"

section \<open>The tests and merges on a returned value\<close>

lemma api_stop_Obj: "api_stop (Obj m) = Inr (\<exists>v. m ''stop'' = Some v \<and> truthy v)"
  by (auto simp add: api_stop_def split: option.splits)

lemma api_merge_Obj:
  "api_merge d (Obj m) = Inr (case m ''data'' of None \<Rightarrow> d | Some v \<Rightarrow> object_assign d v)"
  by (simp add: api_merge_def split: option.splits)

lemma page_terminal_Obj:
  "page_terminal (Obj m) = Inr (m ''notFound'' \<noteq> None \<or> m ''redirect'' \<noteq> None)"
  by (simp add: page_terminal_def)

lemma page_merge_Obj:
  "page_merge a (Obj m) k =
     Inr (case m k of None \<Rightarrow> a | Some v \<Rightarrow> if truthy v then object_assign a v else a)"
  by (simp add: page_merge_def split: option.splits)

lemma page_terminal_not_object: "(\<And>m. v \<noteq> Obj m) \<Longrightarrow> page_terminal v = Inl TypeError"
  by (cases v) (auto simp: page_terminal_def)

lemma page_terminal_Inr: "page_terminal v = Inr b \<Longrightarrow> \<exists>m. v = Obj m"
  by (cases v) (simp_all add: page_terminal_def)

lemma api_stop_Inr: "api_stop v = Inr b \<Longrightarrow> \<exists>m. v = Obj m"
  by (cases v) (simp_all add: api_stop_def)

lemma falsy_own_entries: "\<not> truthy v \<Longrightarrow> own_entries v = Map.empty"
  by (cases v) simp_all

lemma copied_entries_nothing: "own_entries v = Map.empty \<Longrightarrow> copied_entries v = Map.empty"
  by (simp add: copied_entries_def)

lemma copied_entries_plain:
  "own_entries v ''__proto__'' = None \<Longrightarrow> copied_entries v = own_entries v"
  by (simp add: copied_entries_def fun_upd_idem)



lemma object_assign_Obj: "m ''__proto__'' = None \<Longrightarrow> object_assign t (Obj m) = t ++ m"
  by (simp add: object_assign_def copied_entries_plain)

lemma object_assign_nothing: "own_entries v = Map.empty \<Longrightarrow> object_assign t v = t"
  by (simp add: object_assign_def copied_entries_nothing)

lemmas object_assign_simps = object_assign_Obj object_assign_nothing

lemma contribution_field: "contribution key r = copied_entries (field key r)"
  by (cases r) (simp_all add: copied_entries_def split: option.splits)

lemma api_merge_contribution:
  "api_merge d r = Inr d' \<Longrightarrow> d' = d ++ contribution ''data'' r"
  by (cases r) (auto simp: api_merge_def object_assign_def split: option.splits)

lemma page_merge_contribution:
  "page_merge a r k = Inr a' \<Longrightarrow> a' = a ++ contribution k r"
  by (cases r)
     (auto simp: page_merge_def object_assign_def falsy_own_entries copied_entries_nothing
       split: option.splits)

subsection \<open>One step of each loop on an object\<close>

lemma api_layers_Obj:
  "layer req res d w = (Inr (Obj m), w') \<Longrightarrow>
   api_layers (layer # rest) i req res d w =
     api_logged (ApiLayerCall i d (Inr (Obj m)))
       (if \<exists>v. m ''stop'' = Some v \<and> truthy v then (Return Undefined, d, w', [])
        else api_layers rest (Suc i) req res
               (case m ''data'' of None \<Rightarrow> d | Some v \<Rightarrow> object_assign d v) w')"
  by (auto simp add: api_stop_Obj api_merge_Obj)

lemma api_layers_Undefined:
  "layer req res d w = (Inr Undefined, w') \<Longrightarrow>
   api_layers (layer # rest) i req res d w =
     api_logged (ApiLayerCall i d (Inr Undefined)) (api_layers rest (Suc i) req res d w')"
  by simp

lemma page_layers_Obj:
  "layer ctx d p w = (Inr (Obj m), w') \<Longrightarrow>
   page_layers (layer # rest) i ctx d p w =
     page_logged (PageLayerCall i d p (Inr (Obj m)))
       (if m ''notFound'' \<noteq> None \<or> m ''redirect'' \<noteq> None then (Return (Obj m), d, p, w', [])
        else page_layers rest (Suc i) ctx
               (case m ''data'' of None \<Rightarrow> d | Some v \<Rightarrow> if truthy v then object_assign d v else d)
               (case m ''props'' of None \<Rightarrow> p | Some v \<Rightarrow> if truthy v then object_assign p v else p)
               w')"
  by (simp add: page_terminal_Obj page_merge_Obj)

lemma page_final_Obj:
  "f ctx d p w = (Inr (Obj m), w') \<Longrightarrow>
   page_final (Some f) ctx d p w evs =
     (if m ''notFound'' \<noteq> None \<or> m ''redirect'' \<noteq> None
      then (Inr (Obj m), d, p, w', evs @ [PageHandlerCall d p (Inr (Obj m))])
      else (Inr (props_result (case m ''props'' of None \<Rightarrow> p | Some v \<Rightarrow> object_assign p v)), d,
            (case m ''props'' of None \<Rightarrow> p | Some v \<Rightarrow> object_assign p v),
            w', evs @ [PageHandlerCall d p (Inr (Obj m))]))"
  by (simp add: page_final_def page_terminal_Obj Let_def object_assign_nothing split: option.splits)

subsection \<open>A chain split in two\<close>

lemma api_layers_append:
  "api_layers (xs @ ys) i req res d w =
     (case api_layers xs i req res d w of
        (Next, d', w', evs) \<Rightarrow>
          (case api_layers ys (i + length xs) req res d' w' of
             (f, d'', w'', evs') \<Rightarrow> (f, d'', w'', evs @ evs'))
      | r \<Rightarrow> r)"
  by (induction xs arbitrary: i d w)
     (auto split: prod.splits sum.splits flow.splits simp: api_logged_def)

lemma page_layers_append:
  "page_layers (xs @ ys) i ctx d p w =
     (case page_layers xs i ctx d p w of
        (Next, d', p', w', evs) \<Rightarrow>
          (case page_layers ys (i + length xs) ctx d' p' w' of
             (f, d'', p'', w'', evs') \<Rightarrow> (f, d'', p'', w'', evs @ evs'))
      | r \<Rightarrow> r)"
  by (induction xs arbitrary: i d p w)
     (auto split: prod.splits sum.splits flow.splits simp: page_logged_def)

subsection \<open>A loop that runs to its end\<close>

text \<open>
  When no layer ends the run, each accumulator is the initial one with the contributions
  of the recorded calls merged in, in order, and every layer was called once, in order.
\<close>

lemma api_layers_Next:
  "api_layers ls i req res d w = (Next, d', w', evs) \<Longrightarrow>
   d' = foldl (++) d (map (contribution ''data'' \<circ> api_returned) evs) \<and>
   map api_called evs = map Some [i..<i + length ls]"
proof (induction ls arbitrary: i d w evs)
  case Nil
  then show ?case by simp
next
  case (Cons l ls)
  obtain r w1 where l: "l req res d w = (r, w1)" by (cases "l req res d w")
  show ?case
  proof (cases r)
    case (Inl e)
    with Cons.prems l show ?thesis by simp
  next
    case (Inr v)
    with Cons.prems l obtain d1 evs1 where
      rest: "api_layers ls (Suc i) req res d1 w1 = (Next, d', w', evs1)"
      and evs: "evs = ApiLayerCall i d (Inr v) # evs1"
      and d1: "d1 = d ++ contribution ''data'' v"
      by (auto simp: api_logged_def split: if_splits sum.splits prod.splits
          dest: api_merge_contribution)
    from Cons.IH [OF rest] show ?thesis
      by (simp add: evs d1 upt_conv_Cons del: upt_Suc)
  qed
qed

lemma page_layers_Next:
  "page_layers ls i ctx d p w = (Next, d', p', w', evs) \<Longrightarrow>
   d' = foldl (++) d (map (contribution ''data'' \<circ> page_returned) evs) \<and>
   p' = foldl (++) p (map (contribution ''props'' \<circ> page_returned) evs) \<and>
   map page_called evs = map Some [i..<i + length ls]"
proof (induction ls arbitrary: i d p w evs)
  case Nil
  then show ?case by simp
next
  case (Cons l ls)
  obtain r w1 where l: "l ctx d p w = (r, w1)" by (cases "l ctx d p w")
  show ?case
  proof (cases r)
    case (Inl e)
    with Cons.prems l show ?thesis by simp
  next
    case (Inr v)
    with Cons.prems l obtain d1 p1 evs1 where
      rest: "page_layers ls (Suc i) ctx d1 p1 w1 = (Next, d', p', w', evs1)"
      and evs: "evs = PageLayerCall i d p (Inr v) # evs1"
      and md: "page_merge d v ''data'' = Inr d1"
      and mp: "page_merge p v ''props'' = Inr p1"
      by (auto simp: page_logged_def split: if_splits sum.splits prod.splits)
    from Cons.IH [OF rest] page_merge_contribution [OF md] page_merge_contribution [OF mp]
    show ?thesis
      by (simp add: evs upt_conv_Cons del: upt_Suc)
  qed
qed

section \<open>Terminal outcomes\<close>

lemma api_stop_ends_run:
  assumes pre: "api_layers pre 0 req res Map.empty w = (Next, d, w1, evs)"
    and layer: "layer req res d w1 = (Inr (Obj m), w2)"
    and stop: "m ''stop'' = Some v" "truthy v"
  shows "api_closure (pre @ layer # post) fn req res w =
           (Inr Undefined, d, w2, evs @ [ApiLayerCall (length pre) d (Inr (Obj m))]) \<and>
         map api_called (evs @ [ApiLayerCall (length pre) d (Inr (Obj m))]) =
           map Some [0..<Suc (length pre)]"
proof (intro conjI)
  from stop have "\<exists>v. m ''stop'' = Some v \<and> truthy v" by blast
  then have "api_layers (layer # post) (length pre) req res d w1 =
      (Return Undefined, d, w2, [ApiLayerCall (length pre) d (Inr (Obj m))])"
    using api_layers_Obj [of layer req res d w1 m w2 post "length pre"] layer
    by (simp add: api_logged_def)
  then show "api_closure (pre @ layer # post) fn req res w =
           (Inr Undefined, d, w2, evs @ [ApiLayerCall (length pre) d (Inr (Obj m))])"
    by (simp add: api_closure_def api_layers_append pre)
  from api_layers_Next [OF pre]
  show "map api_called (evs @ [ApiLayerCall (length pre) d (Inr (Obj m))]) =
           map Some [0..<Suc (length pre)]"
    by simp
qed

lemma page_terminal_ends_run:
  assumes pre: "page_layers pre 0 ctx Map.empty Map.empty w = (Next, d, p, w1, evs)"
    and layer: "layer ctx d p w1 = (Inr (Obj m), w2)"
    and terminal: "m ''notFound'' \<noteq> None \<or> m ''redirect'' \<noteq> None"
  shows "page_closure (pre @ layer # post) fn ctx w =
           (Inr (Obj m), d, p, w2, evs @ [PageLayerCall (length pre) d p (Inr (Obj m))]) \<and>
         map page_called (evs @ [PageLayerCall (length pre) d p (Inr (Obj m))]) =
           map Some [0..<Suc (length pre)]"
proof (intro conjI)
  have "page_layers (layer # post) (length pre) ctx d p w1 =
      (Return (Obj m), d, p, w2, [PageLayerCall (length pre) d p (Inr (Obj m))])"
    using page_layers_Obj [of layer ctx d p w1 m w2 post "length pre"] layer terminal
    by (simp add: page_logged_def)
  then show "page_closure (pre @ layer # post) fn ctx w =
           (Inr (Obj m), d, p, w2, evs @ [PageLayerCall (length pre) d p (Inr (Obj m))])"
    by (simp add: page_closure_def page_layers_append pre)
  from page_layers_Next [OF pre]
  show "map page_called (evs @ [PageLayerCall (length pre) d p (Inr (Obj m))]) =
           map Some [0..<Suc (length pre)]"
    by simp
qed

text \<open>
  Claim C1. When the layers before position \<open>i\<close> have run without ending the chain and
  layer \<open>i\<close> returns a terminal outcome (api: an object with a truthy \<^verbatim>\<open>stop\<close>; page: an
  object with a \<^verbatim>\<open>notFound\<close> or \<^verbatim>\<open>redirect\<close> key), the compiled handler returns at
  once: the calls made are those of layers \<open>0\<close> to \<open>i\<close> and no other (no later layer, no
  final handler, whatever they are), the world is as layer \<open>i\<close> left it, and the result
  is \<^verbatim>\<open>undefined\<close> (api) or the very object the layer returned (page), not an object
  built from the accumulated \<^verbatim>\<open>data\<close> or \<^verbatim>\<open>props\<close>.
\<close>

theorem terminal_outcome_ends_run:
  "(api_layers pre 0 req res Map.empty w = (Next, d, w1, evs) \<and>
    layer req res d w1 = (Inr (Obj m), w2) \<and> m ''stop'' = Some v \<and> truthy v \<longrightarrow>
      api_closure (pre @ layer # post) fn req res w =
        (Inr Undefined, d, w2, evs @ [ApiLayerCall (length pre) d (Inr (Obj m))]) \<and>
      map api_called (evs @ [ApiLayerCall (length pre) d (Inr (Obj m))]) =
        map Some [0..<Suc (length pre)])
 \<and> (page_layers ppre 0 ctx Map.empty Map.empty pw = (Next, pd, pp, pw1, pevs) \<and>
    player ctx pd pp pw1 = (Inr (Obj pm), pw2) \<and>
    (pm ''notFound'' \<noteq> None \<or> pm ''redirect'' \<noteq> None) \<longrightarrow>
      page_closure (ppre @ player # ppost) pfn ctx pw =
        (Inr (Obj pm), pd, pp, pw2, pevs @ [PageLayerCall (length ppre) pd pp (Inr (Obj pm))]) \<and>
      map page_called (pevs @ [PageLayerCall (length ppre) pd pp (Inr (Obj pm))]) =
        map Some [0..<Suc (length ppre)])"
  using api_stop_ends_run [where pre = pre and req = req and res = res and w = w and d = d
      and ?w1.0 = w1 and evs = evs and layer = layer and m = m and ?w2.0 = w2 and v = v
      and post = post and fn = fn]
    page_terminal_ends_run [where pre = ppre and ctx = ctx and w = pw and d = pd and p = pp
      and ?w1.0 = pw1 and evs = pevs and layer = player and m = pm and ?w2.0 = pw2
      and post = ppost and fn = pfn]
  by blast

text \<open>
  The instance: the api chain of the tests with a stopping layer in the middle, and the
  page chain of the test ``multiple layers''.
\<close>

lemma api_sample_prefix:
  "api_layers [api_const (with_data [''a'' \<mapsto> Str ''a''])] 0 () () Map.empty 0 =
     (Next, [''a'' \<mapsto> Str ''a''], 1,
      [ApiLayerCall 0 Map.empty (Inr (with_data [''a'' \<mapsto> Str ''a'']))])"
  by (simp add: api_const_def with_data_def api_stop_Obj api_merge_Obj object_assign_simps
      api_logged_def)

lemma page_sample_prefix:
  "page_layers [page_const (with_data [''some'' \<mapsto> Str '''']),
                page_const (with_props [''other'' \<mapsto> Num 0])] 0 () Map.empty Map.empty 0 =
     (Next, [''some'' \<mapsto> Str ''''], [''other'' \<mapsto> Num 0], 2,
      [PageLayerCall 0 Map.empty Map.empty (Inr (with_data [''some'' \<mapsto> Str ''''])),
       PageLayerCall 1 [''some'' \<mapsto> Str ''''] Map.empty (Inr (with_props [''other'' \<mapsto> Num 0]))])"
  by (simp add: page_const_def with_data_def with_props_def page_terminal_Obj page_merge_Obj
      object_assign_simps page_logged_def)

theorem terminal_outcome_ends_run_witness:
  "(api_layers [api_const (with_data [''a'' \<mapsto> Str ''a''])] 0 () () Map.empty 0 =
      (Next, [''a'' \<mapsto> Str ''a''], 1,
       [ApiLayerCall 0 Map.empty (Inr (with_data [''a'' \<mapsto> Str ''a'']))]) \<and>
    api_const (Obj [''stop'' \<mapsto> Bool True]) () () [''a'' \<mapsto> Str ''a''] 1 =
      (Inr (Obj [''stop'' \<mapsto> Bool True]), 2) \<and>
    [''stop'' \<mapsto> Bool True] ''stop'' = Some (Bool True) \<and> truthy (Bool True)) \<and>
   api_closure
     ([api_const (with_data [''a'' \<mapsto> Str ''a''])] @ api_const (Obj [''stop'' \<mapsto> Bool True]) #
      [api_const (with_data [''b'' \<mapsto> Str ''b''])])
     (api_const Undefined) () () 0 =
     (Inr Undefined, [''a'' \<mapsto> Str ''a''], 2,
      [ApiLayerCall 0 Map.empty (Inr (with_data [''a'' \<mapsto> Str ''a'']))] @
      [ApiLayerCall 1 [''a'' \<mapsto> Str ''a''] (Inr (Obj [''stop'' \<mapsto> Bool True]))]) \<and>
   (page_layers [page_const (with_data [''some'' \<mapsto> Str '''']),
                 page_const (with_props [''other'' \<mapsto> Num 0])] 0 () Map.empty Map.empty 0 =
      (Next, [''some'' \<mapsto> Str ''''], [''other'' \<mapsto> Num 0], 2,
       [PageLayerCall 0 Map.empty Map.empty (Inr (with_data [''some'' \<mapsto> Str ''''])),
        PageLayerCall 1 [''some'' \<mapsto> Str ''''] Map.empty
          (Inr (with_props [''other'' \<mapsto> Num 0]))]) \<and>
    page_const (Obj [''notFound'' \<mapsto> Bool True]) () [''some'' \<mapsto> Str '''']
        [''other'' \<mapsto> Num 0] 2 =
      (Inr (Obj [''notFound'' \<mapsto> Bool True]), 3)) \<and>
   page_closure
     ([page_const (with_data [''some'' \<mapsto> Str '''']),
       page_const (with_props [''other'' \<mapsto> Num 0])] @
      page_const (Obj [''notFound'' \<mapsto> Bool True]) #
      [page_const (Obj [''redirect'' \<mapsto> Obj [''destination'' \<mapsto> Str ''/'']])])
     (Some (page_const (with_props Map.empty))) () 0 =
     (Inr (Obj [''notFound'' \<mapsto> Bool True]), [''some'' \<mapsto> Str ''''], [''other'' \<mapsto> Num 0], 3,
      [PageLayerCall 0 Map.empty Map.empty (Inr (with_data [''some'' \<mapsto> Str ''''])),
       PageLayerCall 1 [''some'' \<mapsto> Str ''''] Map.empty
         (Inr (with_props [''other'' \<mapsto> Num 0]))] @
      [PageLayerCall 2 [''some'' \<mapsto> Str ''''] [''other'' \<mapsto> Num 0]
         (Inr (Obj [''notFound'' \<mapsto> Bool True]))])"
  using terminal_outcome_ends_run
    [where pre = "[api_const (with_data [''a'' \<mapsto> Str ''a''])]" and req = "()" and res = "()"
       and w = 0 and d = "[''a'' \<mapsto> Str ''a'']" and ?w1.0 = 1
       and evs = "[ApiLayerCall 0 Map.empty (Inr (with_data [''a'' \<mapsto> Str ''a'']))]"
       and layer = "api_const (Obj [''stop'' \<mapsto> Bool True])"
       and m = "[''stop'' \<mapsto> Bool True]" and ?w2.0 = 2 and v = "Bool True"
       and post = "[api_const (with_data [''b'' \<mapsto> Str ''b''])]" and fn = "api_const Undefined"
       and ppre = "[page_const (with_data [''some'' \<mapsto> Str '''']),
                    page_const (with_props [''other'' \<mapsto> Num 0])]"
       and ctx = "()" and pw = 0 and pd = "[''some'' \<mapsto> Str '''']"
       and pp = "[''other'' \<mapsto> Num 0]" and ?pw1.0 = 2
       and pevs = "[PageLayerCall 0 Map.empty Map.empty (Inr (with_data [''some'' \<mapsto> Str ''''])),
          PageLayerCall 1 [''some'' \<mapsto> Str ''''] Map.empty
            (Inr (with_props [''other'' \<mapsto> Num 0]))]"
       and player = "page_const (Obj [''notFound'' \<mapsto> Bool True])"
       and pm = "[''notFound'' \<mapsto> Bool True]" and ?pw2.0 = 3
       and ppost = "[page_const (Obj [''redirect'' \<mapsto> Obj [''destination'' \<mapsto> Str ''/'']])]"
       and pfn = "Some (page_const (with_props Map.empty))"]
    api_sample_prefix page_sample_prefix
  by (simp add: api_const_def page_const_def)

section \<open>Classification of results\<close>

text \<open>
  Claim C6. In the page flavor an object returned by a layer or by the final handler is
  terminal exactly when it has a \<^verbatim>\<open>notFound\<close> or a \<^verbatim>\<open>redirect\<close> key, whatever the value
  of the key: the object is then returned as it is and nothing else is called; otherwise
  the run goes on. In the api flavor an object ends the run exactly when it has a
  \<^verbatim>\<open>stop\<close> key with a truthy value; otherwise the loop goes on with the next layer.
\<close>

theorem terminal_classification:
  "(layer ctx d p w = (Inr (Obj m), w') \<longrightarrow>
      page_layers (layer # rest) i ctx d p w =
        page_logged (PageLayerCall i d p (Inr (Obj m)))
          (if m ''notFound'' \<noteq> None \<or> m ''redirect'' \<noteq> None
           then (Return (Obj m), d, p, w', [])
           else page_layers rest (Suc i) ctx
                  (case m ''data'' of None \<Rightarrow> d
                   | Some v \<Rightarrow> if truthy v then object_assign d v else d)
                  (case m ''props'' of None \<Rightarrow> p
                   | Some v \<Rightarrow> if truthy v then object_assign p v else p)
                  w'))
 \<and> (fn ctx dh ph wh = (Inr (Obj mh), wh') \<longrightarrow>
      page_final (Some fn) ctx dh ph wh hevs =
        (if mh ''notFound'' \<noteq> None \<or> mh ''redirect'' \<noteq> None
         then (Inr (Obj mh), dh, ph, wh', hevs @ [PageHandlerCall dh ph (Inr (Obj mh))])
         else (Inr (props_result (case mh ''props'' of None \<Rightarrow> ph | Some v \<Rightarrow> object_assign ph v)),
               dh, (case mh ''props'' of None \<Rightarrow> ph | Some v \<Rightarrow> object_assign ph v),
               wh', hevs @ [PageHandlerCall dh ph (Inr (Obj mh))])))
 \<and> (alayer req res da wa = (Inr (Obj ma), wa') \<longrightarrow>
      api_layers (alayer # arest) j req res da wa =
        api_logged (ApiLayerCall j da (Inr (Obj ma)))
          (if \<exists>v. ma ''stop'' = Some v \<and> truthy v
           then (Return Undefined, da, wa', [])
           else api_layers arest (Suc j) req res
                  (case ma ''data'' of None \<Rightarrow> da | Some v \<Rightarrow> object_assign da v) wa'))"
  using api_layers_Obj [of alayer req res da wa ma wa' arest j]
    page_layers_Obj [of layer ctx d p w m w' rest i]
    page_final_Obj [of fn ctx dh ph wh mh wh' hevs]
  by blast

text \<open>
  The instance: \<^verbatim>\<open>{ notFound: false }\<close> ends a page run, from a layer and from the final
  handler, and is the result; \<^verbatim>\<open>{ stop: false }\<close> does not end an api run.
\<close>

theorem terminal_classification_witness:
  "page_const (Obj [''notFound'' \<mapsto> Bool False]) () Map.empty [''a'' \<mapsto> Num 1] 0
    = (Inr (Obj [''notFound'' \<mapsto> Bool False]), 1)
 \<and> api_const (Obj [''stop'' \<mapsto> Bool False]) () () Map.empty 0
    = (Inr (Obj [''stop'' \<mapsto> Bool False]), 1)
 \<and> page_layers [page_const (Obj [''notFound'' \<mapsto> Bool False]),
                page_const (with_props [''b'' \<mapsto> Num 2])]
      0 () Map.empty [''a'' \<mapsto> Num 1] 0
    = (Return (Obj [''notFound'' \<mapsto> Bool False]), Map.empty, [''a'' \<mapsto> Num 1], 1,
       [PageLayerCall 0 Map.empty [''a'' \<mapsto> Num 1] (Inr (Obj [''notFound'' \<mapsto> Bool False]))])
 \<and> page_final (Some (page_const (Obj [''notFound'' \<mapsto> Bool False])))
      () Map.empty [''a'' \<mapsto> Num 1] 0 []
    = (Inr (Obj [''notFound'' \<mapsto> Bool False]), Map.empty, [''a'' \<mapsto> Num 1], 1,
       [PageHandlerCall Map.empty [''a'' \<mapsto> Num 1] (Inr (Obj [''notFound'' \<mapsto> Bool False]))])
 \<and> api_layers [api_const (Obj [''stop'' \<mapsto> Bool False]),
               api_const (with_data [''a'' \<mapsto> Num 1])]
      0 () () Map.empty 0
    = (Next, [''a'' \<mapsto> Num 1], 2,
       [ApiLayerCall 0 Map.empty (Inr (Obj [''stop'' \<mapsto> Bool False])),
        ApiLayerCall 1 Map.empty (Inr (with_data [''a'' \<mapsto> Num 1]))])"
  using terminal_classification
    [where layer = "page_const (Obj [''notFound'' \<mapsto> Bool False])" and ctx = "()"
       and d = Map.empty and p = "[''a'' \<mapsto> Num 1]" and w = 0
       and m = "[''notFound'' \<mapsto> Bool False]" and w' = 1 and i = 0
       and rest = "[page_const (with_props [''b'' \<mapsto> Num 2])]"
       and fn = "page_const (Obj [''notFound'' \<mapsto> Bool False])"
       and dh = Map.empty and ph = "[''a'' \<mapsto> Num 1]" and wh = 0 and wh' = 1
       and mh = "[''notFound'' \<mapsto> Bool False]" and hevs = "[]"
       and alayer = "api_const (Obj [''stop'' \<mapsto> Bool False])"
       and req = "()" and res = "()" and da = Map.empty and wa = 0 and wa' = 1
       and ma = "[''stop'' \<mapsto> Bool False]" and j = 0
       and arest = "[api_const (with_data [''a'' \<mapsto> Num 1])]"]
  by (simp add: api_const_def page_const_def with_data_def object_assign_simps api_stop_Obj
      api_merge_Obj api_logged_def page_logged_def)

section \<open>Merging\<close>






















section \<open>Results that contribute nothing\<close>

lemma api_layers_no_contribution:
  assumes "layer req res d w = (Inr (Obj m), w')"
    and "\<not> (\<exists>v. m ''stop'' = Some v \<and> truthy v)"
    and "contribution ''data'' (Obj m) = Map.empty"
  shows "api_layers (layer # rest) i req res d w =
           api_logged (ApiLayerCall i d (Inr (Obj m))) (api_layers rest (Suc i) req res d w')"
proof -
  have "(case m ''data'' of None \<Rightarrow> d | Some v \<Rightarrow> object_assign d v) = d"
    using assms(3) by (simp add: object_assign_def split: option.splits)
  with assms(1,2) api_layers_Obj [of layer req res d w m w' rest i]
  show ?thesis by (auto simp del: api_layers.simps)
qed

lemma page_layers_no_contribution:
  assumes "layer ctx d p w = (Inr (Obj m), w')"
    and "m ''notFound'' = None" and "m ''redirect'' = None"
    and "contribution ''data'' (Obj m) = Map.empty"
    and "contribution ''props'' (Obj m) = Map.empty"
  shows "page_layers (layer # rest) i ctx d p w =
           page_logged (PageLayerCall i d p (Inr (Obj m))) (page_layers rest (Suc i) ctx d p w')"
proof -
  have "(case m ''data'' of None \<Rightarrow> d | Some v \<Rightarrow> if truthy v then object_assign d v else d) = d"
    using assms(4) by (simp add: object_assign_def split: option.splits)
  moreover
  have "(case m ''props'' of None \<Rightarrow> p | Some v \<Rightarrow> if truthy v then object_assign p v else p) = p"
    using assms(5) by (simp add: object_assign_def split: option.splits)
  ultimately show ?thesis
    using assms(1,2,3) page_layers_Obj [of layer ctx d p w m w' rest i]
    by (simp del: page_layers.simps)
qed

text \<open>
  Claim C4, as the code has it. In the api flavor a layer that returns \<^verbatim>\<open>undefined\<close>, or
  an object with no \<^verbatim>\<open>data\<close> and no \<^verbatim>\<open>stop\<close> key, leaves \<^verbatim>\<open>data\<close> as it is and the loop
  goes on with the next layer. In the page flavor a layer that returns an object with none
  of the keys \<^verbatim>\<open>data\<close>, \<^verbatim>\<open>props\<close>, \<^verbatim>\<open>notFound\<close> and \<^verbatim>\<open>redirect\<close> leaves both
  accumulators as they are and the loop goes on with the next layer.
\<close>

theorem empty_result_continues:
  "(layer req res d w = (Inr Undefined, w') \<longrightarrow>
      api_layers (layer # rest) i req res d w =
        api_logged (ApiLayerCall i d (Inr Undefined)) (api_layers rest (Suc i) req res d w'))
 \<and> (layer req res d w = (Inr (Obj m), w') \<and> m ''data'' = None \<and> m ''stop'' = None \<longrightarrow>
      api_layers (layer # rest) i req res d w =
        api_logged (ApiLayerCall i d (Inr (Obj m))) (api_layers rest (Suc i) req res d w'))
 \<and> (player ctx pd pp pw = (Inr (Obj pm), pw') \<and> pm ''data'' = None \<and> pm ''props'' = None \<and>
    pm ''notFound'' = None \<and> pm ''redirect'' = None \<longrightarrow>
      page_layers (player # prest) i ctx pd pp pw =
        page_logged (PageLayerCall i pd pp (Inr (Obj pm)))
          (page_layers prest (Suc i) ctx pd pp pw'))"
  using api_layers_Undefined [of layer req res d w w' rest i]
    api_layers_no_contribution [of layer req res d w m w' rest i]
    page_layers_no_contribution [of player ctx pd pp pw pm pw' prest i]
  by (simp del: api_layers.simps page_layers.simps)

text \<open>
  The instance: the empty layers of the tests, \<^verbatim>\<open>() => {}\<close> in an api chain and
  \<^verbatim>\<open>() => ({})\<close> in a page chain (and \<^verbatim>\<open>() => ({})\<close> in an api chain), each followed
  by a layer that is then called with the accumulators unchanged.
\<close>

theorem empty_result_continues_witness:
  "api_const Undefined () () [''a'' \<mapsto> Num 1] 0 = (Inr Undefined, 1)
 \<and> api_layers [api_const Undefined, api_const (with_data [''b'' \<mapsto> Num 2])] 0 () ()
       [''a'' \<mapsto> Num 1] 0 =
     (Next, [''a'' \<mapsto> Num 1, ''b'' \<mapsto> Num 2], 2,
      [ApiLayerCall 0 [''a'' \<mapsto> Num 1] (Inr Undefined),
       ApiLayerCall 1 [''a'' \<mapsto> Num 1] (Inr (with_data [''b'' \<mapsto> Num 2]))])
 \<and> api_const (Obj Map.empty) () () [''a'' \<mapsto> Num 1] 0 = (Inr (Obj Map.empty), 1)
 \<and> api_layers [api_const (Obj Map.empty), api_const (with_data [''b'' \<mapsto> Num 2])] 0 () ()
       [''a'' \<mapsto> Num 1] 0 =
     (Next, [''a'' \<mapsto> Num 1, ''b'' \<mapsto> Num 2], 2,
      [ApiLayerCall 0 [''a'' \<mapsto> Num 1] (Inr (Obj Map.empty)),
       ApiLayerCall 1 [''a'' \<mapsto> Num 1] (Inr (with_data [''b'' \<mapsto> Num 2]))])
 \<and> page_const (Obj Map.empty) () [''a'' \<mapsto> Num 1] [''c'' \<mapsto> Num 3] 0 = (Inr (Obj Map.empty), 1)
 \<and> page_layers [page_const (Obj Map.empty), page_const (with_props [''b'' \<mapsto> Num 2])] 0 ()
       [''a'' \<mapsto> Num 1] [''c'' \<mapsto> Num 3] 0 =
     (Next, [''a'' \<mapsto> Num 1], [''c'' \<mapsto> Num 3, ''b'' \<mapsto> Num 2], 2,
      [PageLayerCall 0 [''a'' \<mapsto> Num 1] [''c'' \<mapsto> Num 3] (Inr (Obj Map.empty)),
       PageLayerCall 1 [''a'' \<mapsto> Num 1] [''c'' \<mapsto> Num 3]
         (Inr (with_props [''b'' \<mapsto> Num 2]))])"
proof -
  have next_api: "api_layers [api_const (with_data [''b'' \<mapsto> Num 2])] (Suc 0) () ()
      [''a'' \<mapsto> Num 1] 1 =
     (Next, [''a'' \<mapsto> Num 1, ''b'' \<mapsto> Num 2], 2,
      [ApiLayerCall 1 [''a'' \<mapsto> Num 1] (Inr (with_data [''b'' \<mapsto> Num 2]))])"
    by (simp add: api_const_def with_data_def api_stop_Obj api_merge_Obj object_assign_simps
        api_logged_def)
  have next_page: "page_layers [page_const (with_props [''b'' \<mapsto> Num 2])] (Suc 0) ()
      [''a'' \<mapsto> Num 1] [''c'' \<mapsto> Num 3] 1 =
     (Next, [''a'' \<mapsto> Num 1], [''c'' \<mapsto> Num 3, ''b'' \<mapsto> Num 2], 2,
      [PageLayerCall 1 [''a'' \<mapsto> Num 1] [''c'' \<mapsto> Num 3]
         (Inr (with_props [''b'' \<mapsto> Num 2]))])"
    by (simp add: page_const_def with_props_def page_terminal_Obj page_merge_Obj
        object_assign_simps page_logged_def)
  have u: "api_const Undefined () () [''a'' \<mapsto> Num 1] 0 = (Inr Undefined, 1)"
    and e: "api_const (Obj Map.empty) () () [''a'' \<mapsto> Num 1] 0 = (Inr (Obj Map.empty), 1)"
    and pe: "page_const (Obj Map.empty) () [''a'' \<mapsto> Num 1] [''c'' \<mapsto> Num 3] 0 =
      (Inr (Obj Map.empty), 1)"
    by (simp_all add: api_const_def page_const_def)
  from u next_api
    empty_result_continues [where layer = "api_const Undefined" and req = "()" and res = "()"
      and d = "[''a'' \<mapsto> Num 1]" and w = 0 and w' = 1 and i = 0
      and rest = "[api_const (with_data [''b'' \<mapsto> Num 2])]"]
  have 1: "api_layers [api_const Undefined, api_const (with_data [''b'' \<mapsto> Num 2])] 0 () ()
       [''a'' \<mapsto> Num 1] 0 =
     (Next, [''a'' \<mapsto> Num 1, ''b'' \<mapsto> Num 2], 2,
      [ApiLayerCall 0 [''a'' \<mapsto> Num 1] (Inr Undefined),
       ApiLayerCall 1 [''a'' \<mapsto> Num 1] (Inr (with_data [''b'' \<mapsto> Num 2]))])"
    by (simp add: api_logged_def)
  from e pe next_api next_page
    empty_result_continues [where layer = "api_const (Obj Map.empty)" and req = "()"
      and res = "()" and d = "[''a'' \<mapsto> Num 1]" and w = 0 and w' = 1 and i = 0
      and m = Map.empty and rest = "[api_const (with_data [''b'' \<mapsto> Num 2])]"
      and player = "page_const (Obj Map.empty)" and ctx = "()" and pd = "[''a'' \<mapsto> Num 1]"
      and pp = "[''c'' \<mapsto> Num 3]" and pw = 0 and pw' = 1 and pm = Map.empty
      and prest = "[page_const (with_props [''b'' \<mapsto> Num 2])]"]
  have 2: "api_layers [api_const (Obj Map.empty), api_const (with_data [''b'' \<mapsto> Num 2])] 0 () ()
       [''a'' \<mapsto> Num 1] 0 =
     (Next, [''a'' \<mapsto> Num 1, ''b'' \<mapsto> Num 2], 2,
      [ApiLayerCall 0 [''a'' \<mapsto> Num 1] (Inr (Obj Map.empty)),
       ApiLayerCall 1 [''a'' \<mapsto> Num 1] (Inr (with_data [''b'' \<mapsto> Num 2]))])"
    and 3: "page_layers [page_const (Obj Map.empty), page_const (with_props [''b'' \<mapsto> Num 2])] 0 ()
       [''a'' \<mapsto> Num 1] [''c'' \<mapsto> Num 3] 0 =
     (Next, [''a'' \<mapsto> Num 1], [''c'' \<mapsto> Num 3, ''b'' \<mapsto> Num 2], 2,
      [PageLayerCall 0 [''a'' \<mapsto> Num 1] [''c'' \<mapsto> Num 3] (Inr (Obj Map.empty)),
       PageLayerCall 1 [''a'' \<mapsto> Num 1] [''c'' \<mapsto> Num 3]
         (Inr (with_props [''b'' \<mapsto> Num 2]))])"
    by (simp_all add: api_logged_def page_logged_def)
  from u e pe 1 2 3 show ?thesis by blast
qed

text \<open>
  A page layer that returns \<^verbatim>\<open>undefined\<close> is not a no-op: the test
  \<^verbatim>\<open>"notFound" in res\<close> throws a \<^verbatim>\<open>TypeError\<close>, the handler rejects and the next layer
  is not called. (The page \<^verbatim>\<open>Layer\<close> type has no \<^verbatim>\<open>void\<close> result, the api one has.)
\<close>

theorem page_undefined_result_counterexample:
  "page_closure [page_const Undefined, page_const (with_props [''b'' \<mapsto> Num 2])]
     (Some (page_const (with_props Map.empty))) () 0 =
     (Inl TypeError, Map.empty, Map.empty, 1,
      [PageLayerCall 0 Map.empty Map.empty (Inr Undefined)])"
  by (simp add: page_closure_def page_const_def page_terminal_def page_logged_def)

lemma own_entries_empty:
  "own_entries v = Map.empty \<longleftrightarrow>
     (case v of Str s \<Rightarrow> s = [] | Obj m \<Rightarrow> m = Map.empty | _ \<Rightarrow> True)"
proof (cases v)
  case (Str s)
  show ?thesis
  proof (cases s)
    case Nil
    with Str show ?thesis by simp
  next
    case (Cons c cs)
    have "own_entries (Str (c # cs)) (dec 0) = Some (Str [c])"
      by (simp add: upt_conv_Cons del: upt_Suc)
    then have "own_entries (Str (c # cs)) \<noteq> Map.empty" by (metis option.distinct(1))
    with Str Cons show ?thesis by simp
  qed
qed simp_all

lemma no_entries_no_contribution:
  "own_entries (field key r) = Map.empty \<Longrightarrow> contribution key r = Map.empty"
  by (simp add: contribution_field copied_entries_nothing)

text \<open>
  Claim C7, as the code has it. A layer somewhere in a chain returns an object that the
  engine's tests do not take for terminal (api: no \<^verbatim>\<open>stop\<close> key, or a falsy one; page:
  neither a \<^verbatim>\<open>notFound\<close> nor a \<^verbatim>\<open>redirect\<close> key) and whose \<^verbatim>\<open>data\<close> field (and
  \<^verbatim>\<open>props\<close> field in the page flavor) is absent or holds a value with no own enumerable
  properties: \<^verbatim>\<open>undefined\<close>, \<^verbatim>\<open>null\<close>, a boolean, a number, the empty string or an
  empty object. Examples are \<^verbatim>\<open>{ foo: 1 }\<close>, \<^verbatim>\<open>{ data: 5 }\<close>, \<^verbatim>\<open>{ data: null }\<close> and, in
  the api flavor, \<^verbatim>\<open>{ stop: false }\<close>. Then nothing is raised at that layer and the rest
  of the chain runs from the accumulators the layer was given: however the rest ends from
  there is how the whole loop ends, with the call of the layer recorded in between.
\<close>

theorem unrecognised_object_is_ignored:
  "(api_layers pre 0 req res Map.empty w = (Next, d, w1, evs) \<and>
    layer req res d w1 = (Inr (Obj m), w2) \<and>
    \<not> (\<exists>v. m ''stop'' = Some v \<and> truthy v) \<and>
    own_entries (field ''data'' (Obj m)) = Map.empty \<and>
    api_layers post (Suc (length pre)) req res d w2 = (f, d', w3, evs') \<longrightarrow>
      api_layers (pre @ layer # post) 0 req res Map.empty w =
        (f, d', w3, evs @ ApiLayerCall (length pre) d (Inr (Obj m)) # evs'))
 \<and> (page_layers ppre 0 ctx Map.empty Map.empty pw = (Next, pd, pp, pw1, pevs) \<and>
    player ctx pd pp pw1 = (Inr (Obj pm), pw2) \<and>
    pm ''notFound'' = None \<and> pm ''redirect'' = None \<and>
    own_entries (field ''data'' (Obj pm)) = Map.empty \<and>
    own_entries (field ''props'' (Obj pm)) = Map.empty \<and>
    page_layers ppost (Suc (length ppre)) ctx pd pp pw2 = (pf, pd', pp', pw3, pevs') \<longrightarrow>
      page_layers (ppre @ player # ppost) 0 ctx Map.empty Map.empty pw =
        (pf, pd', pp', pw3, pevs @ PageLayerCall (length ppre) pd pp (Inr (Obj pm)) # pevs'))
 \<and> (own_entries x = Map.empty \<longleftrightarrow>
      (case x of Str s \<Rightarrow> s = [] | Obj e \<Rightarrow> e = Map.empty | _ \<Rightarrow> True))"
proof (intro conjI impI)
  assume a: "api_layers pre 0 req res Map.empty w = (Next, d, w1, evs) \<and>
    layer req res d w1 = (Inr (Obj m), w2) \<and>
    \<not> (\<exists>v. m ''stop'' = Some v \<and> truthy v) \<and>
    own_entries (field ''data'' (Obj m)) = Map.empty \<and>
    api_layers post (Suc (length pre)) req res d w2 = (f, d', w3, evs')"
  then have "contribution ''data'' (Obj m) = Map.empty"
    using no_entries_no_contribution [of "''data''" "Obj m"] by blast
  with a have "api_layers (layer # post) (length pre) req res d w1 =
      api_logged (ApiLayerCall (length pre) d (Inr (Obj m)))
        (api_layers post (Suc (length pre)) req res d w2)"
    using api_layers_no_contribution [of layer req res d w1 m w2 post "length pre"] by blast
  with a show "api_layers (pre @ layer # post) 0 req res Map.empty w =
        (f, d', w3, evs @ ApiLayerCall (length pre) d (Inr (Obj m)) # evs')"
    by (simp add: api_layers_append api_logged_def del: api_layers.simps field.simps)
next
  assume a: "page_layers ppre 0 ctx Map.empty Map.empty pw = (Next, pd, pp, pw1, pevs) \<and>
    player ctx pd pp pw1 = (Inr (Obj pm), pw2) \<and>
    pm ''notFound'' = None \<and> pm ''redirect'' = None \<and>
    own_entries (field ''data'' (Obj pm)) = Map.empty \<and>
    own_entries (field ''props'' (Obj pm)) = Map.empty \<and>
    page_layers ppost (Suc (length ppre)) ctx pd pp pw2 = (pf, pd', pp', pw3, pevs')"
  then have "contribution ''data'' (Obj pm) = Map.empty" "contribution ''props'' (Obj pm) = Map.empty"
    using no_entries_no_contribution [of "''data''" "Obj pm"]
      no_entries_no_contribution [of "''props''" "Obj pm"] by blast+
  with a have "page_layers (player # ppost) (length ppre) ctx pd pp pw1 =
      page_logged (PageLayerCall (length ppre) pd pp (Inr (Obj pm)))
        (page_layers ppost (Suc (length ppre)) ctx pd pp pw2)"
    using page_layers_no_contribution [of player ctx pd pp pw1 pm pw2 ppost "length ppre"]
    by blast
  with a show "page_layers (ppre @ player # ppost) 0 ctx Map.empty Map.empty pw =
        (pf, pd', pp', pw3, pevs @ PageLayerCall (length ppre) pd pp (Inr (Obj pm)) # pevs')"
    by (simp add: page_layers_append page_logged_def del: page_layers.simps field.simps)
next
  show "own_entries x = Map.empty \<longleftrightarrow>
      (case x of Str s \<Rightarrow> s = [] | Obj e \<Rightarrow> e = Map.empty | _ \<Rightarrow> True)"
    by (rule own_entries_empty)
qed

text \<open>
  The instance: \<^verbatim>\<open>{ data: 5 }\<close> returned in the middle of an api chain and
  \<^verbatim>\<open>{ data: null, foo: 1 }\<close> in the middle of a page chain.
\<close>

theorem unrecognised_object_is_ignored_witness:
  "api_layers [api_const (with_data [''a'' \<mapsto> Str ''a''])] 0 () () Map.empty 0 =
     (Next, [''a'' \<mapsto> Str ''a''], 1,
      [ApiLayerCall 0 Map.empty (Inr (with_data [''a'' \<mapsto> Str ''a'']))])
 \<and> api_const (Obj [''data'' \<mapsto> Num 5]) () () [''a'' \<mapsto> Str ''a''] 1 =
     (Inr (Obj [''data'' \<mapsto> Num 5]), 2)
 \<and> own_entries (field ''data'' (Obj [''data'' \<mapsto> Num 5])) = Map.empty
 \<and> api_layers [api_const (with_data [''b'' \<mapsto> Str ''b''])] 2 () () [''a'' \<mapsto> Str ''a''] 2 =
     (Next, [''a'' \<mapsto> Str ''a'', ''b'' \<mapsto> Str ''b''], 3,
      [ApiLayerCall 2 [''a'' \<mapsto> Str ''a''] (Inr (with_data [''b'' \<mapsto> Str ''b'']))])
 \<and> api_layers ([api_const (with_data [''a'' \<mapsto> Str ''a''])] @
        api_const (Obj [''data'' \<mapsto> Num 5]) # [api_const (with_data [''b'' \<mapsto> Str ''b''])])
       0 () () Map.empty 0 =
     (Next, [''a'' \<mapsto> Str ''a'', ''b'' \<mapsto> Str ''b''], 3,
      [ApiLayerCall 0 Map.empty (Inr (with_data [''a'' \<mapsto> Str ''a'']))] @
      ApiLayerCall 1 [''a'' \<mapsto> Str ''a''] (Inr (Obj [''data'' \<mapsto> Num 5])) #
      [ApiLayerCall 2 [''a'' \<mapsto> Str ''a''] (Inr (with_data [''b'' \<mapsto> Str ''b'']))])
 \<and> page_const (Obj [''data'' \<mapsto> Null, ''foo'' \<mapsto> Num 1]) () [''some'' \<mapsto> Str '''']
       [''other'' \<mapsto> Num 0] 2 =
     (Inr (Obj [''data'' \<mapsto> Null, ''foo'' \<mapsto> Num 1]), 3)
 \<and> own_entries (field ''data'' (Obj [''data'' \<mapsto> Null, ''foo'' \<mapsto> Num 1])) = Map.empty
 \<and> own_entries (field ''props'' (Obj [''data'' \<mapsto> Null, ''foo'' \<mapsto> Num 1])) = Map.empty
 \<and> page_layers [page_const (with_props [''b'' \<mapsto> Str ''b''])] 3 ()
       [''some'' \<mapsto> Str ''''] [''other'' \<mapsto> Num 0] 3 =
     (Next, [''some'' \<mapsto> Str ''''], [''other'' \<mapsto> Num 0, ''b'' \<mapsto> Str ''b''], 4,
      [PageLayerCall 3 [''some'' \<mapsto> Str ''''] [''other'' \<mapsto> Num 0]
         (Inr (with_props [''b'' \<mapsto> Str ''b'']))])
 \<and> page_layers ([page_const (with_data [''some'' \<mapsto> Str '''']),
                  page_const (with_props [''other'' \<mapsto> Num 0])] @
        page_const (Obj [''data'' \<mapsto> Null, ''foo'' \<mapsto> Num 1]) #
        [page_const (with_props [''b'' \<mapsto> Str ''b''])])
       0 () Map.empty Map.empty 0 =
     (Next, [''some'' \<mapsto> Str ''''], [''other'' \<mapsto> Num 0, ''b'' \<mapsto> Str ''b''], 4,
      [PageLayerCall 0 Map.empty Map.empty (Inr (with_data [''some'' \<mapsto> Str ''''])),
       PageLayerCall 1 [''some'' \<mapsto> Str ''''] Map.empty
         (Inr (with_props [''other'' \<mapsto> Num 0]))] @
      PageLayerCall 2 [''some'' \<mapsto> Str ''''] [''other'' \<mapsto> Num 0]
        (Inr (Obj [''data'' \<mapsto> Null, ''foo'' \<mapsto> Num 1])) #
      [PageLayerCall 3 [''some'' \<mapsto> Str ''''] [''other'' \<mapsto> Num 0]
         (Inr (with_props [''b'' \<mapsto> Str ''b'']))])"
proof -
  let ?m = "[''data'' \<mapsto> Num 5]"
  let ?pm = "[''data'' \<mapsto> Null, ''foo'' \<mapsto> Num 1]"
  have layer: "api_const (Obj ?m) () () [''a'' \<mapsto> Str ''a''] 1 = (Inr (Obj ?m), 2)"
    by (simp add: api_const_def)
  have post: "api_layers [api_const (with_data [''b'' \<mapsto> Str ''b''])] 2 () () [''a'' \<mapsto> Str ''a''] 2 =
     (Next, [''a'' \<mapsto> Str ''a'', ''b'' \<mapsto> Str ''b''], 3,
      [ApiLayerCall 2 [''a'' \<mapsto> Str ''a''] (Inr (with_data [''b'' \<mapsto> Str ''b'']))])"
    by (simp add: api_const_def with_data_def api_stop_Obj api_merge_Obj object_assign_simps
        api_logged_def)
  have player: "page_const (Obj ?pm) () [''some'' \<mapsto> Str '''']
      [''other'' \<mapsto> Num 0] 2 = (Inr (Obj ?pm), 3)"
    by (simp add: page_const_def)
  have ppost: "page_layers [page_const (with_props [''b'' \<mapsto> Str ''b''])] 3 ()
       [''some'' \<mapsto> Str ''''] [''other'' \<mapsto> Num 0] 3 =
     (Next, [''some'' \<mapsto> Str ''''], [''other'' \<mapsto> Num 0, ''b'' \<mapsto> Str ''b''], 4,
      [PageLayerCall 3 [''some'' \<mapsto> Str ''''] [''other'' \<mapsto> Num 0]
         (Inr (with_props [''b'' \<mapsto> Str ''b'']))])"
    by (simp add: page_const_def with_props_def page_terminal_Obj page_merge_Obj
        object_assign_simps page_logged_def)
  have no_entries: "own_entries (field ''data'' (Obj ?m)) = Map.empty"
    "own_entries (field ''data'' (Obj ?pm)) = Map.empty"
    "own_entries (field ''props'' (Obj ?pm)) = Map.empty"
    by simp_all
  have plain: "\<not> (\<exists>v. ?m ''stop'' = Some v \<and> truthy v)" "?pm ''notFound'' = None"
    "?pm ''redirect'' = None"
    by simp_all
  note inst = unrecognised_object_is_ignored
    [where pre = "[api_const (with_data [''a'' \<mapsto> Str ''a''])]" and req = "()" and res = "()"
       and w = 0 and d = "[''a'' \<mapsto> Str ''a'']" and ?w1.0 = 1
       and evs = "[ApiLayerCall 0 Map.empty (Inr (with_data [''a'' \<mapsto> Str ''a'']))]"
       and layer = "api_const (Obj ?m)" and m = ?m
       and ?w2.0 = 2 and post = "[api_const (with_data [''b'' \<mapsto> Str ''b''])]" and f = Next
       and d' = "[''a'' \<mapsto> Str ''a'', ''b'' \<mapsto> Str ''b'']" and ?w3.0 = 3
       and evs' = "[ApiLayerCall 2 [''a'' \<mapsto> Str ''a''] (Inr (with_data [''b'' \<mapsto> Str ''b'']))]"
       and ppre = "[page_const (with_data [''some'' \<mapsto> Str '''']),
                    page_const (with_props [''other'' \<mapsto> Num 0])]"
       and ctx = "()" and pw = 0 and pd = "[''some'' \<mapsto> Str '''']"
       and pp = "[''other'' \<mapsto> Num 0]" and ?pw1.0 = 2
       and pevs = "[PageLayerCall 0 Map.empty Map.empty (Inr (with_data [''some'' \<mapsto> Str ''''])),
          PageLayerCall 1 [''some'' \<mapsto> Str ''''] Map.empty
            (Inr (with_props [''other'' \<mapsto> Num 0]))]"
       and player = "page_const (Obj ?pm)" and pm = ?pm
       and ?pw2.0 = 3 and ppost = "[page_const (with_props [''b'' \<mapsto> Str ''b''])]"
       and pf = Next and pd' = "[''some'' \<mapsto> Str '''']"
       and pp' = "[''other'' \<mapsto> Num 0, ''b'' \<mapsto> Str ''b'']" and ?pw3.0 = 4
       and pevs' = "[PageLayerCall 3 [''some'' \<mapsto> Str ''''] [''other'' \<mapsto> Num 0]
         (Inr (with_props [''b'' \<mapsto> Str ''b'']))]"]
  from inst [THEN conjunct1] inst [THEN conjunct2, THEN conjunct1]
    api_sample_prefix page_sample_prefix layer post player ppost no_entries plain
  have whole: "api_layers ([api_const (with_data [''a'' \<mapsto> Str ''a''])] @
        api_const (Obj ?m) # [api_const (with_data [''b'' \<mapsto> Str ''b''])])
       0 () () Map.empty 0 =
     (Next, [''a'' \<mapsto> Str ''a'', ''b'' \<mapsto> Str ''b''], 3,
      [ApiLayerCall 0 Map.empty (Inr (with_data [''a'' \<mapsto> Str ''a'']))] @
      ApiLayerCall 1 [''a'' \<mapsto> Str ''a''] (Inr (Obj ?m)) #
      [ApiLayerCall 2 [''a'' \<mapsto> Str ''a''] (Inr (with_data [''b'' \<mapsto> Str ''b'']))])"
    "page_layers ([page_const (with_data [''some'' \<mapsto> Str '''']),
                  page_const (with_props [''other'' \<mapsto> Num 0])] @
        page_const (Obj ?pm) # [page_const (with_props [''b'' \<mapsto> Str ''b''])])
       0 () Map.empty Map.empty 0 =
     (Next, [''some'' \<mapsto> Str ''''], [''other'' \<mapsto> Num 0, ''b'' \<mapsto> Str ''b''], 4,
      [PageLayerCall 0 Map.empty Map.empty (Inr (with_data [''some'' \<mapsto> Str ''''])),
       PageLayerCall 1 [''some'' \<mapsto> Str ''''] Map.empty
         (Inr (with_props [''other'' \<mapsto> Num 0]))] @
      PageLayerCall 2 [''some'' \<mapsto> Str ''''] [''other'' \<mapsto> Num 0] (Inr (Obj ?pm)) #
      [PageLayerCall 3 [''some'' \<mapsto> Str ''''] [''other'' \<mapsto> Num 0]
         (Inr (with_props [''b'' \<mapsto> Str ''b'']))])"
    by (simp_all add: eval_nat_numeral del: api_layers.simps page_layers.simps append.simps)
  from whole api_sample_prefix layer post player ppost no_entries show ?thesis
    by - (intro conjI, assumption+)
qed

text \<open>
  Malformed objects that are not ignored. In the api flavor \<^verbatim>\<open>{ stop: "no" }\<close> is not
  \<^verbatim>\<open>{ stop: true }\<close> and has no \<^verbatim>\<open>data\<close>, and it ends the run: the next layer is not
  called. In the page flavor \<^verbatim>\<open>{ notFound: false }\<close> is not \<^verbatim>\<open>{ notFound: true }\<close>, and
  it ends the run and is the result. In the api flavor the \<^verbatim>\<open>data\<close> of
  \<^verbatim>\<open>{ data: "ab" }\<close> is not an object, and its characters are merged into the
  accumulator under the keys \<^verbatim>\<open>0\<close> and \<^verbatim>\<open>1\<close>.
\<close>

theorem malformed_object_counterexample:
  "api_closure [api_const (Obj [''stop'' \<mapsto> Str ''no'']), api_const (with_data [''b'' \<mapsto> Num 2])]
     (api_const Undefined) () () 0 =
     (Inr Undefined, Map.empty, 1,
      [ApiLayerCall 0 Map.empty (Inr (Obj [''stop'' \<mapsto> Str ''no'']))])
 \<and> page_closure [page_const (Obj [''notFound'' \<mapsto> Bool False]),
                 page_const (with_props [''b'' \<mapsto> Num 2])]
     (Some (page_const (with_props Map.empty))) () 0 =
     (Inr (Obj [''notFound'' \<mapsto> Bool False]), Map.empty, Map.empty, 1,
      [PageLayerCall 0 Map.empty Map.empty (Inr (Obj [''notFound'' \<mapsto> Bool False]))])
 \<and> api_layers [api_const (Obj [''data'' \<mapsto> Str ''ab''])] 0 () () Map.empty 0 =
     (Next, [''0'' \<mapsto> Str ''a'', ''1'' \<mapsto> Str ''b''], 1,
      [ApiLayerCall 0 Map.empty (Inr (Obj [''data'' \<mapsto> Str ''ab'']))])"
proof (intro conjI)
  show "api_closure [api_const (Obj [''stop'' \<mapsto> Str ''no'']), api_const (with_data [''b'' \<mapsto> Num 2])]
     (api_const Undefined) () () 0 =
     (Inr Undefined, Map.empty, 1,
      [ApiLayerCall 0 Map.empty (Inr (Obj [''stop'' \<mapsto> Str ''no'']))])"
    by (simp add: api_closure_def api_const_def api_stop_Obj api_logged_def)
  show "page_closure [page_const (Obj [''notFound'' \<mapsto> Bool False]),
                 page_const (with_props [''b'' \<mapsto> Num 2])]
     (Some (page_const (with_props Map.empty))) () 0 =
     (Inr (Obj [''notFound'' \<mapsto> Bool False]), Map.empty, Map.empty, 1,
      [PageLayerCall 0 Map.empty Map.empty (Inr (Obj [''notFound'' \<mapsto> Bool False]))])"
    by (simp add: page_closure_def page_const_def page_terminal_Obj page_logged_def)
  have "dec 0 = ''0''" by code_simp
  moreover have "dec 1 = ''1''" by code_simp
  ultimately have "own_entries (Str ''ab'') = [''1'' \<mapsto> Str ''b'', ''0'' \<mapsto> Str ''a'']"
    by (simp add: eval_nat_numeral)
  also have "\<dots> = [''0'' \<mapsto> Str ''a'', ''1'' \<mapsto> Str ''b'']"
    by (simp add: fun_upd_twist)
  finally have "copied_entries (Str ''ab'') = [''0'' \<mapsto> Str ''a'', ''1'' \<mapsto> Str ''b'']"
    by (simp add: copied_entries_plain)
  then show "api_layers [api_const (Obj [''data'' \<mapsto> Str ''ab''])] 0 () () Map.empty 0 =
     (Next, [''0'' \<mapsto> Str ''a'', ''1'' \<mapsto> Str ''b''], 1,
      [ApiLayerCall 0 Map.empty (Inr (Obj [''data'' \<mapsto> Str ''ab'']))])"
    by (simp add: api_const_def api_stop_Obj api_merge_Obj object_assign_def api_logged_def)
qed

section \<open>The final handler\<close>








section \<open>A page handler without a final handler\<close>



section \<open>Layers with disjoint keys\<close>

lemma disjoint_keys_members:
  assumes "disjoint_keys ps" and "p \<in> set ps" and "q \<in> set ps" and "p \<noteq> q"
  shows "dom p \<inter> dom q = {}"
proof -
  from assms(2,3) obtain a b where "a < length ps" "ps ! a = p" "b < length ps" "ps ! b = q"
    by (auto simp: in_set_conv_nth)
  moreover from this assms(4) have "a \<noteq> b" by auto
  ultimately show ?thesis using assms(1) unfolding disjoint_keys_def by blast
qed

lemma union_of_members:
  assumes "\<forall>p\<in>set ps. \<forall>q\<in>set ps. p \<noteq> q \<longrightarrow> dom p \<inter> dom q = {}"
  shows "foldl (++) Map.empty ps k = Some v \<longleftrightarrow> (\<exists>p\<in>set ps. p k = Some v)"
  using assms
proof (induction ps rule: rev_induct)
  case Nil
  show ?case by simp
next
  case (snoc p ps)
  then have IH: "foldl (++) Map.empty ps k = Some v \<longleftrightarrow> (\<exists>q\<in>set ps. q k = Some v)"
    by simp
  show ?case
  proof (cases "p k")
    case None
    then show ?thesis using IH by (auto simp: map_add_Some_iff)
  next
    case (Some v')
    have "v = v'" if "q \<in> set ps" "q k = Some v" for q
    proof (cases "q = p")
      case True
      with that Some show ?thesis by simp
    next
      case False
      with snoc.prems that have "dom q \<inter> dom p = {}" by simp
      with that Some show ?thesis by auto
    qed
    with Some show ?thesis by (auto simp: map_add_Some_iff)
  qed
qed

lemma disjoint_union_lookup:
  "disjoint_keys ps \<Longrightarrow>
   foldl (++) Map.empty ps k = Some v \<longleftrightarrow> (\<exists>p\<in>set ps. p k = Some v)"
  by (rule union_of_members) (blast dest: disjoint_keys_members)

lemma disjoint_order_irrelevant:
  assumes "disjoint_keys ps" and "mset qs = mset ps"
  shows "foldl (++) Map.empty qs = foldl (++) Map.empty ps"
proof -
  from assms(2) have sets: "set qs = set ps" by (rule mset_eq_setD)
  have ps: "\<forall>p\<in>set ps. \<forall>q\<in>set ps. p \<noteq> q \<longrightarrow> dom p \<inter> dom q = {}"
    using assms(1) by (blast dest: disjoint_keys_members)
  then have qs: "\<forall>p\<in>set qs. \<forall>q\<in>set qs. p \<noteq> q \<longrightarrow> dom p \<inter> dom q = {}"
    by (simp add: sets)
  have "foldl (++) Map.empty qs k = foldl (++) Map.empty ps k" for k
  proof (cases "foldl (++) Map.empty ps k")
    case None
    then have "\<not> (\<exists>v. foldl (++) Map.empty qs k = Some v)"
      using union_of_members [OF ps, of k] union_of_members [OF qs, of k] sets by auto
    with None show ?thesis by simp
  next
    case (Some v)
    then show ?thesis
      using union_of_members [OF ps, of k v] union_of_members [OF qs, of k v] sets by simp
  qed
  then show ?thesis by (rule ext)
qed

lemma disjoint_keys_pair: "disjoint_keys [p, q] \<longleftrightarrow> dom p \<inter> dom q = {}"
  unfolding disjoint_keys_def
proof
  assume all: "\<forall>a<length [p, q]. \<forall>b<length [p, q]. a \<noteq> b \<longrightarrow> dom ([p, q] ! a) \<inter> dom ([p, q] ! b) = {}"
  have "(0::nat) < length [p, q]" "(1::nat) < length [p, q]" "(0::nat) \<noteq> 1" by simp_all
  with all have "dom ([p, q] ! 0) \<inter> dom ([p, q] ! 1) = {}" by blast
  then show "dom p \<inter> dom q = {}" by simp
next
  assume d: "dom p \<inter> dom q = {}"
  show "\<forall>a<length [p, q]. \<forall>b<length [p, q]. a \<noteq> b \<longrightarrow> dom ([p, q] ! a) \<inter> dom ([p, q] ! b) = {}"
  proof (intro allI impI)
    fix a b assume "a < length [p, q]" "b < length [p, q]" "a \<noteq> b"
    then consider "a = 0 \<and> b = 1" | "a = 1 \<and> b = 0" by fastforce
    then show "dom ([p, q] ! a) \<inter> dom ([p, q] ! b) = {}"
    proof cases
      case 1
      with d show ?thesis by simp
    next
      case 2
      with d show ?thesis by (simp add: Int_commute)
    qed
  qed
qed

lemma plain_contributions:
  assumes "\<forall>e\<in>set evs. own_entries (field key (ret e)) ''__proto__'' = None"
  shows "map (contribution key \<circ> ret) evs = map (own_entries \<circ> field key \<circ> ret) evs"
  using assms by (simp add: contribution_field copied_entries_plain)

lemma plain_contributions_same:
  assumes plain: "\<forall>e\<in>set evs. own_entries (field key (ret e)) ''__proto__'' = None"
    and same: "mset (map (own_entries \<circ> field key \<circ> ret) evs2) =
               mset (map (own_entries \<circ> field key \<circ> ret) evs)"
  shows "map (contribution key \<circ> ret) evs2 = map (own_entries \<circ> field key \<circ> ret) evs2"
proof (rule plain_contributions, rule ballI)
  fix e assume "e \<in> set evs2"
  then have "own_entries (field key (ret e)) \<in> set (map (own_entries \<circ> field key \<circ> ret) evs2)"
    by auto
  also have "\<dots> = set (map (own_entries \<circ> field key \<circ> ret) evs)"
    using same by (rule mset_eq_setD)
  finally obtain e' where "e' \<in> set evs"
    "own_entries (field key (ret e)) = own_entries (field key (ret e'))" by auto
  with plain show "own_entries (field key (ret e)) ''__proto__'' = None" by simp
qed

lemma accumulator_union:
  assumes acc: "a = foldl (++) Map.empty (map (contribution key \<circ> ret) evs)"
    and plain: "\<forall>e\<in>set evs. own_entries (field key (ret e)) ''__proto__'' = None"
    and disj: "disjoint_keys (map (own_entries \<circ> field key \<circ> ret) evs)"
  shows "a k = Some v \<longleftrightarrow> (\<exists>e\<in>set evs. own_entries (field key (ret e)) k = Some v)"
  using disjoint_union_lookup [OF disj, of k v]
  by (auto simp: acc plain_contributions [OF plain])

lemma accumulator_order:
  assumes acc: "a = foldl (++) Map.empty (map (contribution key \<circ> ret) evs)"
    and acc2: "a2 = foldl (++) Map.empty (map (contribution key \<circ> ret) evs2)"
    and plain: "\<forall>e\<in>set evs. own_entries (field key (ret e)) ''__proto__'' = None"
    and disj: "disjoint_keys (map (own_entries \<circ> field key \<circ> ret) evs)"
    and same: "mset (map (own_entries \<circ> field key \<circ> ret) evs2) =
               mset (map (own_entries \<circ> field key \<circ> ret) evs)"
  shows "a2 = a"
  using disjoint_order_irrelevant [OF disj same]
  by (simp add: acc acc2 plain_contributions [OF plain] plain_contributions_same [OF plain same])

text \<open>
  Claim C8, as the code has it. In a run that reaches the end of the chain, when the
  partials the layers return for an accumulator have no own \<^verbatim>\<open>__proto__\<close> key and are
  pairwise disjoint in their keys, the final accumulator is the union of the partials:
  it maps a key to a value exactly when the partial of some call has that value for that
  key. Any other such run whose calls return the same partials, in whatever order (the
  same layers in another order, returning the same), ends with the same accumulator.
\<close>

theorem disjoint_contributions_union:
  "(api_layers ls 0 req res Map.empty w = (Next, d, w', evs) \<and>
    (\<forall>e\<in>set evs. own_entries (field ''data'' (api_returned e)) ''__proto__'' = None) \<and>
    disjoint_keys (map (own_entries \<circ> field ''data'' \<circ> api_returned) evs) \<longrightarrow>
      (d k = Some v \<longleftrightarrow> (\<exists>e\<in>set evs. own_entries (field ''data'' (api_returned e)) k = Some v)))
 \<and> (api_layers ls 0 req res Map.empty w = (Next, d, w', evs) \<and>
    (\<forall>e\<in>set evs. own_entries (field ''data'' (api_returned e)) ''__proto__'' = None) \<and>
    disjoint_keys (map (own_entries \<circ> field ''data'' \<circ> api_returned) evs) \<and>
    api_layers ls2 0 req2 res2 Map.empty w2 = (Next, d2, w2', evs2) \<and>
    mset (map (own_entries \<circ> field ''data'' \<circ> api_returned) evs2) =
    mset (map (own_entries \<circ> field ''data'' \<circ> api_returned) evs) \<longrightarrow> d2 = d)
 \<and> (page_layers pls 0 ctx Map.empty Map.empty pw = (Next, pd, pp, pw', pevs) \<and>
    (\<forall>e\<in>set pevs. own_entries (field ''data'' (page_returned e)) ''__proto__'' = None) \<and>
    disjoint_keys (map (own_entries \<circ> field ''data'' \<circ> page_returned) pevs) \<longrightarrow>
      (pd k = Some v \<longleftrightarrow> (\<exists>e\<in>set pevs. own_entries (field ''data'' (page_returned e)) k = Some v)))
 \<and> (page_layers pls 0 ctx Map.empty Map.empty pw = (Next, pd, pp, pw', pevs) \<and>
    (\<forall>e\<in>set pevs. own_entries (field ''props'' (page_returned e)) ''__proto__'' = None) \<and>
    disjoint_keys (map (own_entries \<circ> field ''props'' \<circ> page_returned) pevs) \<longrightarrow>
      (pp k = Some v \<longleftrightarrow> (\<exists>e\<in>set pevs. own_entries (field ''props'' (page_returned e)) k = Some v)))
 \<and> (page_layers pls 0 ctx Map.empty Map.empty pw = (Next, pd, pp, pw', pevs) \<and>
    (\<forall>e\<in>set pevs. own_entries (field ''data'' (page_returned e)) ''__proto__'' = None) \<and>
    disjoint_keys (map (own_entries \<circ> field ''data'' \<circ> page_returned) pevs) \<and>
    page_layers pls2 0 ctx2 Map.empty Map.empty pw2 = (Next, pd2, pp2, pw2', pevs2) \<and>
    mset (map (own_entries \<circ> field ''data'' \<circ> page_returned) pevs2) =
    mset (map (own_entries \<circ> field ''data'' \<circ> page_returned) pevs) \<longrightarrow> pd2 = pd)
 \<and> (page_layers pls 0 ctx Map.empty Map.empty pw = (Next, pd, pp, pw', pevs) \<and>
    (\<forall>e\<in>set pevs. own_entries (field ''props'' (page_returned e)) ''__proto__'' = None) \<and>
    disjoint_keys (map (own_entries \<circ> field ''props'' \<circ> page_returned) pevs) \<and>
    page_layers pls2 0 ctx2 Map.empty Map.empty pw2 = (Next, pd2, pp2, pw2', pevs2) \<and>
    mset (map (own_entries \<circ> field ''props'' \<circ> page_returned) pevs2) =
    mset (map (own_entries \<circ> field ''props'' \<circ> page_returned) pevs) \<longrightarrow> pp2 = pp)"
proof -
  have api_union: "d k = Some v \<longleftrightarrow>
      (\<exists>e\<in>set evs. own_entries (field ''data'' (api_returned e)) k = Some v)"
    if run: "api_layers ls 0 req res Map.empty w = (Next, d, w', evs)"
      and plain: "\<forall>e\<in>set evs. own_entries (field ''data'' (api_returned e)) ''__proto__'' = None"
      and disj: "disjoint_keys (map (own_entries \<circ> field ''data'' \<circ> api_returned) evs)"
  proof -
    have "d = foldl (++) Map.empty (map (contribution ''data'' \<circ> api_returned) evs)"
      using api_layers_Next [OF run] by simp
    from accumulator_union [OF this plain disj] show ?thesis .
  qed
  have api_order: "d2 = d"
    if run: "api_layers ls 0 req res Map.empty w = (Next, d, w', evs)"
      and plain: "\<forall>e\<in>set evs. own_entries (field ''data'' (api_returned e)) ''__proto__'' = None"
      and disj: "disjoint_keys (map (own_entries \<circ> field ''data'' \<circ> api_returned) evs)"
      and run2: "api_layers ls2 0 req2 res2 Map.empty w2 = (Next, d2, w2', evs2)"
      and same: "mset (map (own_entries \<circ> field ''data'' \<circ> api_returned) evs2) =
                 mset (map (own_entries \<circ> field ''data'' \<circ> api_returned) evs)"
  proof -
    have acc: "d = foldl (++) Map.empty (map (contribution ''data'' \<circ> api_returned) evs)"
      using api_layers_Next [OF run] by simp
    have acc2: "d2 = foldl (++) Map.empty (map (contribution ''data'' \<circ> api_returned) evs2)"
      using api_layers_Next [OF run2] by simp
    from accumulator_order [OF acc acc2 plain disj same] show ?thesis .
  qed
  have page_data_union: "pd k = Some v \<longleftrightarrow>
      (\<exists>e\<in>set pevs. own_entries (field ''data'' (page_returned e)) k = Some v)"
    if run: "page_layers pls 0 ctx Map.empty Map.empty pw = (Next, pd, pp, pw', pevs)"
      and plain: "\<forall>e\<in>set pevs. own_entries (field ''data'' (page_returned e)) ''__proto__'' = None"
      and disj: "disjoint_keys (map (own_entries \<circ> field ''data'' \<circ> page_returned) pevs)"
  proof -
    have "pd = foldl (++) Map.empty (map (contribution ''data'' \<circ> page_returned) pevs)"
      using page_layers_Next [OF run] by simp
    from accumulator_union [OF this plain disj] show ?thesis .
  qed
  have page_props_union: "pp k = Some v \<longleftrightarrow>
      (\<exists>e\<in>set pevs. own_entries (field ''props'' (page_returned e)) k = Some v)"
    if run: "page_layers pls 0 ctx Map.empty Map.empty pw = (Next, pd, pp, pw', pevs)"
      and plain: "\<forall>e\<in>set pevs. own_entries (field ''props'' (page_returned e)) ''__proto__'' = None"
      and disj: "disjoint_keys (map (own_entries \<circ> field ''props'' \<circ> page_returned) pevs)"
  proof -
    have "pp = foldl (++) Map.empty (map (contribution ''props'' \<circ> page_returned) pevs)"
      using page_layers_Next [OF run] by simp
    from accumulator_union [OF this plain disj] show ?thesis .
  qed
  have page_data_order: "pd2 = pd"
    if run: "page_layers pls 0 ctx Map.empty Map.empty pw = (Next, pd, pp, pw', pevs)"
      and plain: "\<forall>e\<in>set pevs. own_entries (field ''data'' (page_returned e)) ''__proto__'' = None"
      and disj: "disjoint_keys (map (own_entries \<circ> field ''data'' \<circ> page_returned) pevs)"
      and run2: "page_layers pls2 0 ctx2 Map.empty Map.empty pw2 = (Next, pd2, pp2, pw2', pevs2)"
      and same: "mset (map (own_entries \<circ> field ''data'' \<circ> page_returned) pevs2) =
                 mset (map (own_entries \<circ> field ''data'' \<circ> page_returned) pevs)"
  proof -
    have acc: "pd = foldl (++) Map.empty (map (contribution ''data'' \<circ> page_returned) pevs)"
      using page_layers_Next [OF run] by simp
    have acc2: "pd2 = foldl (++) Map.empty (map (contribution ''data'' \<circ> page_returned) pevs2)"
      using page_layers_Next [OF run2] by simp
    from accumulator_order [OF acc acc2 plain disj same] show ?thesis .
  qed
  have page_props_order: "pp2 = pp"
    if run: "page_layers pls 0 ctx Map.empty Map.empty pw = (Next, pd, pp, pw', pevs)"
      and plain: "\<forall>e\<in>set pevs. own_entries (field ''props'' (page_returned e)) ''__proto__'' = None"
      and disj: "disjoint_keys (map (own_entries \<circ> field ''props'' \<circ> page_returned) pevs)"
      and run2: "page_layers pls2 0 ctx2 Map.empty Map.empty pw2 = (Next, pd2, pp2, pw2', pevs2)"
      and same: "mset (map (own_entries \<circ> field ''props'' \<circ> page_returned) pevs2) =
                 mset (map (own_entries \<circ> field ''props'' \<circ> page_returned) pevs)"
  proof -
    have acc: "pp = foldl (++) Map.empty (map (contribution ''props'' \<circ> page_returned) pevs)"
      using page_layers_Next [OF run] by simp
    have acc2: "pp2 = foldl (++) Map.empty (map (contribution ''props'' \<circ> page_returned) pevs2)"
      using page_layers_Next [OF run2] by simp
    from accumulator_order [OF acc acc2 plain disj same] show ?thesis .
  qed
  show ?thesis
  proof (intro conjI impI; elim conjE)
    show "d k = Some v \<longleftrightarrow>
      (\<exists>e\<in>set evs. own_entries (field ''data'' (api_returned e)) k = Some v)"
      if "api_layers ls 0 req res Map.empty w = (Next, d, w', evs)"
        "\<forall>e\<in>set evs. own_entries (field ''data'' (api_returned e)) ''__proto__'' = None"
        "disjoint_keys (map (own_entries \<circ> field ''data'' \<circ> api_returned) evs)"
      using that by (rule api_union)
    show "d2 = d"
      if "api_layers ls 0 req res Map.empty w = (Next, d, w', evs)"
        "\<forall>e\<in>set evs. own_entries (field ''data'' (api_returned e)) ''__proto__'' = None"
        "disjoint_keys (map (own_entries \<circ> field ''data'' \<circ> api_returned) evs)"
        "api_layers ls2 0 req2 res2 Map.empty w2 = (Next, d2, w2', evs2)"
        "mset (map (own_entries \<circ> field ''data'' \<circ> api_returned) evs2) =
         mset (map (own_entries \<circ> field ''data'' \<circ> api_returned) evs)"
      using that by (rule api_order)
    show "pd k = Some v \<longleftrightarrow>
      (\<exists>e\<in>set pevs. own_entries (field ''data'' (page_returned e)) k = Some v)"
      if "page_layers pls 0 ctx Map.empty Map.empty pw = (Next, pd, pp, pw', pevs)"
        "\<forall>e\<in>set pevs. own_entries (field ''data'' (page_returned e)) ''__proto__'' = None"
        "disjoint_keys (map (own_entries \<circ> field ''data'' \<circ> page_returned) pevs)"
      using that by (rule page_data_union)
    show "pp k = Some v \<longleftrightarrow>
      (\<exists>e\<in>set pevs. own_entries (field ''props'' (page_returned e)) k = Some v)"
      if "page_layers pls 0 ctx Map.empty Map.empty pw = (Next, pd, pp, pw', pevs)"
        "\<forall>e\<in>set pevs. own_entries (field ''props'' (page_returned e)) ''__proto__'' = None"
        "disjoint_keys (map (own_entries \<circ> field ''props'' \<circ> page_returned) pevs)"
      using that by (rule page_props_union)
    show "pd2 = pd"
      if "page_layers pls 0 ctx Map.empty Map.empty pw = (Next, pd, pp, pw', pevs)"
        "\<forall>e\<in>set pevs. own_entries (field ''data'' (page_returned e)) ''__proto__'' = None"
        "disjoint_keys (map (own_entries \<circ> field ''data'' \<circ> page_returned) pevs)"
        "page_layers pls2 0 ctx2 Map.empty Map.empty pw2 = (Next, pd2, pp2, pw2', pevs2)"
        "mset (map (own_entries \<circ> field ''data'' \<circ> page_returned) pevs2) =
         mset (map (own_entries \<circ> field ''data'' \<circ> page_returned) pevs)"
      using that by (rule page_data_order)
    show "pp2 = pp"
      if "page_layers pls 0 ctx Map.empty Map.empty pw = (Next, pd, pp, pw', pevs)"
        "\<forall>e\<in>set pevs. own_entries (field ''props'' (page_returned e)) ''__proto__'' = None"
        "disjoint_keys (map (own_entries \<circ> field ''props'' \<circ> page_returned) pevs)"
        "page_layers pls2 0 ctx2 Map.empty Map.empty pw2 = (Next, pd2, pp2, pw2', pevs2)"
        "mset (map (own_entries \<circ> field ''props'' \<circ> page_returned) pevs2) =
         mset (map (own_entries \<circ> field ''props'' \<circ> page_returned) pevs)"
      using that by (rule page_props_order)
  qed
qed

text \<open>
  The instance: two layers with disjoint keys, in both orders; in the page flavor one
  contributes to \<^verbatim>\<open>data\<close> and the other to \<^verbatim>\<open>props\<close>.
\<close>

theorem disjoint_contributions_union_witness:
  "api_layers [api_const (with_data [''a'' \<mapsto> Str ''a'']),
               api_const (with_data [''b'' \<mapsto> Str ''b''])] 0 () () Map.empty 0 =
     (Next, [''a'' \<mapsto> Str ''a'', ''b'' \<mapsto> Str ''b''], 2,
      [ApiLayerCall 0 Map.empty (Inr (with_data [''a'' \<mapsto> Str ''a''])),
       ApiLayerCall 1 [''a'' \<mapsto> Str ''a''] (Inr (with_data [''b'' \<mapsto> Str ''b'']))])
 \<and> api_layers [api_const (with_data [''b'' \<mapsto> Str ''b'']),
               api_const (with_data [''a'' \<mapsto> Str ''a''])] 0 () () Map.empty 0 =
     (Next, [''b'' \<mapsto> Str ''b'', ''a'' \<mapsto> Str ''a''], 2,
      [ApiLayerCall 0 Map.empty (Inr (with_data [''b'' \<mapsto> Str ''b''])),
       ApiLayerCall 1 [''b'' \<mapsto> Str ''b''] (Inr (with_data [''a'' \<mapsto> Str ''a'']))])
 \<and> own_entries (field ''data'' (with_data [''a'' \<mapsto> Str ''a''])) = [''a'' \<mapsto> Str ''a'']
 \<and> own_entries (field ''data'' (with_data [''b'' \<mapsto> Str ''b''])) = [''b'' \<mapsto> Str ''b'']
 \<and> [''a'' \<mapsto> Str ''a''] ''__proto__'' = None
 \<and> [''b'' \<mapsto> Str ''b''] ''__proto__'' = None
 \<and> disjoint_keys [[''a'' \<mapsto> Str ''a''], [''b'' \<mapsto> Str ''b'']]
 \<and> [''b'' \<mapsto> Str ''b'', ''a'' \<mapsto> Str ''a''] = [''a'' \<mapsto> Str ''a'', ''b'' \<mapsto> Str ''b'']
 \<and> page_layers [page_const (with_data [''a'' \<mapsto> Str ''a'']),
                page_const (with_props [''b'' \<mapsto> Str ''b''])] 0 () Map.empty Map.empty 0 =
     (Next, [''a'' \<mapsto> Str ''a''], [''b'' \<mapsto> Str ''b''], 2,
      [PageLayerCall 0 Map.empty Map.empty (Inr (with_data [''a'' \<mapsto> Str ''a''])),
       PageLayerCall 1 [''a'' \<mapsto> Str ''a''] Map.empty (Inr (with_props [''b'' \<mapsto> Str ''b'']))])
 \<and> own_entries (field ''props'' (with_props [''b'' \<mapsto> Str ''b''])) = [''b'' \<mapsto> Str ''b'']
 \<and> own_entries (field ''props'' (with_data [''a'' \<mapsto> Str ''a''])) = Map.empty
 \<and> disjoint_keys [Map.empty, [''b'' \<mapsto> Str ''b'']]
 \<and> (\<exists>e \<in> set [PageLayerCall 0 Map.empty Map.empty (Inr (with_data [''a'' \<mapsto> Str ''a''])),
       PageLayerCall 1 [''a'' \<mapsto> Str ''a''] Map.empty (Inr (with_props [''b'' \<mapsto> Str ''b'']))].
       own_entries (field ''props'' (page_returned e)) ''b'' = Some (Str ''b''))"
proof -
  let ?A = "with_data [''a'' \<mapsto> Str ''a'']" and ?B = "with_data [''b'' \<mapsto> Str ''b'']"
  let ?P = "with_props [''b'' \<mapsto> Str ''b'']"
  let ?evs = "[ApiLayerCall 0 Map.empty (Inr ?A), ApiLayerCall 1 [''a'' \<mapsto> Str ''a''] (Inr ?B)]"
  let ?evs2 = "[ApiLayerCall 0 Map.empty (Inr ?B), ApiLayerCall 1 [''b'' \<mapsto> Str ''b''] (Inr ?A)]"
  let ?pevs = "[PageLayerCall 0 Map.empty Map.empty (Inr ?A),
                PageLayerCall 1 [''a'' \<mapsto> Str ''a''] Map.empty (Inr ?P)]"
  have run: "api_layers [api_const ?A, api_const ?B] 0 () () Map.empty 0 =
      (Next, [''a'' \<mapsto> Str ''a'', ''b'' \<mapsto> Str ''b''], 2, ?evs)"
    and run2: "api_layers [api_const ?B, api_const ?A] 0 () () Map.empty 0 =
      (Next, [''b'' \<mapsto> Str ''b'', ''a'' \<mapsto> Str ''a''], 2, ?evs2)"
    by (simp_all add: api_const_def with_data_def api_stop_Obj api_merge_Obj object_assign_simps
        api_logged_def)
  have prun: "page_layers [page_const ?A, page_const ?P] 0 () Map.empty Map.empty 0 =
      (Next, [''a'' \<mapsto> Str ''a''], [''b'' \<mapsto> Str ''b''], 2, ?pevs)"
    by (simp add: page_const_def with_data_def with_props_def page_terminal_Obj
        page_merge_Obj object_assign_simps page_logged_def)
  have parts: "own_entries (field ''data'' ?A) = [''a'' \<mapsto> Str ''a'']"
    "own_entries (field ''data'' ?B) = [''b'' \<mapsto> Str ''b'']"
    "own_entries (field ''props'' ?P) = [''b'' \<mapsto> Str ''b'']"
    "own_entries (field ''props'' ?A) = Map.empty"
    by (simp_all add: with_data_def with_props_def)
  have plain: "[''a'' \<mapsto> Str ''a''] ''__proto__'' = None" "[''b'' \<mapsto> Str ''b''] ''__proto__'' = None"
    by simp_all
  have disj: "disjoint_keys [[''a'' \<mapsto> Str ''a''], [''b'' \<mapsto> Str ''b'']]"
    "disjoint_keys [Map.empty, [''b'' \<mapsto> Str ''b'']]"
    by (simp_all add: disjoint_keys_pair)
  have swap: "mset [y, x] = mset [x, y]" for x y :: obj
    by (simp add: add_mset_commute)
  note inst = disjoint_contributions_union
    [where ls = "[api_const ?A, api_const ?B]" and req = "()" and res = "()" and w = 0
       and d = "[''a'' \<mapsto> Str ''a'', ''b'' \<mapsto> Str ''b'']" and w' = 2 and evs = ?evs
       and ?ls2.0 = "[api_const ?B, api_const ?A]" and ?req2.0 = "()" and ?res2.0 = "()"
       and ?w2.0 = 0 and ?d2.0 = "[''b'' \<mapsto> Str ''b'', ''a'' \<mapsto> Str ''a'']" and w2' = 2
       and ?evs2.0 = ?evs2
       and pls = "[page_const ?A, page_const ?P]" and ctx = "()" and pw = 0
       and pd = "[''a'' \<mapsto> Str ''a'']" and pp = "[''b'' \<mapsto> Str ''b'']" and pw' = 2
       and pevs = ?pevs
       and k = "''b''" and v = "Str ''b''"]
  from inst [THEN conjunct2, THEN conjunct1] run run2 parts plain disj swap
  have order: "[''b'' \<mapsto> Str ''b'', ''a'' \<mapsto> Str ''a''] = [''a'' \<mapsto> Str ''a'', ''b'' \<mapsto> Str ''b'']"
    by (simp del: api_layers.simps page_layers.simps)
  from inst [THEN conjunct2, THEN conjunct2, THEN conjunct2, THEN conjunct1] prun parts plain disj
  have union: "\<exists>e \<in> set ?pevs. own_entries (field ''props'' (page_returned e)) ''b'' = Some (Str ''b'')"
    by (simp del: api_layers.simps page_layers.simps)
  from run run2 parts plain disj order prun union show ?thesis
    by - (intro conjI, assumption+)
qed

text \<open>
  The claim without the condition on \<^verbatim>\<open>__proto__\<close>: two page layers whose \<^verbatim>\<open>props\<close>
  partials have the disjoint keys \<^verbatim>\<open>a\<close> and \<^verbatim>\<open>__proto__\<close> (an own key of the second
  partial, as \<^verbatim>\<open>JSON.parse\<close> or a computed key makes it). No result is terminal, the run
  reaches the end of the chain, and the final \<^verbatim>\<open>props\<close> lack the key of the second
  partial: they are not the union of the two.
\<close>

theorem proto_partial_lost_counterexample:
  "page_layers [page_const (with_props [''a'' \<mapsto> Str ''a'']),
                page_const (with_props [''__proto__'' \<mapsto> Num 5])] 0 () Map.empty Map.empty 0 =
     (Next, Map.empty, [''a'' \<mapsto> Str ''a''], 2,
      [PageLayerCall 0 Map.empty Map.empty (Inr (with_props [''a'' \<mapsto> Str ''a''])),
       PageLayerCall 1 Map.empty [''a'' \<mapsto> Str ''a'']
         (Inr (with_props [''__proto__'' \<mapsto> Num 5]))])
 \<and> disjoint_keys [[''a'' \<mapsto> Str ''a''], [''__proto__'' \<mapsto> Num 5]]
 \<and> own_entries (field ''props'' (with_props [''__proto__'' \<mapsto> Num 5])) ''__proto__'' = Some (Num 5)
 \<and> [''a'' \<mapsto> Str ''a''] ''__proto__'' = None"
proof -
  have "object_assign [''a'' \<mapsto> Str ''a''] (Obj [''__proto__'' \<mapsto> Num 5]) = [''a'' \<mapsto> Str ''a'']"
    by (simp add: object_assign_def copied_entries_def)
  moreover have "object_assign Map.empty (Obj [''a'' \<mapsto> Str ''a'']) = [''a'' \<mapsto> Str ''a'']"
    by (simp add: object_assign_simps)
  ultimately show ?thesis
    by (simp add: page_const_def with_props_def page_terminal_Obj page_merge_Obj
        object_assign_nothing page_logged_def disjoint_keys_pair)
qed

section \<open>Accumulators are fresh in every invocation\<close>

lemma api_layers_given:
  "api_layers ls i req res d w = (f, d', w', evs) \<Longrightarrow> j < length evs \<Longrightarrow>
   api_given (evs ! j) = foldl (++) d (map (contribution ''data'' \<circ> api_returned) (take j evs))"
proof (induction ls arbitrary: i d w evs j)
  case Nil
  then show ?case by simp
next
  case (Cons l ls)
  obtain r w1 where l: "l req res d w = (r, w1)" by (cases "l req res d w")
  show ?case
  proof (cases r)
    case (Inl e)
    with Cons.prems l show ?thesis by auto
  next
    case (Inr v)
    let ?ev = "ApiLayerCall i d (Inr v)"
    from Cons.prems(1) l Inr consider
      (ended) "evs = [?ev]"
      | (went_on) d1 evs1 where "api_layers ls (Suc i) req res d1 w1 = (f, d', w', evs1)"
          "evs = ?ev # evs1" "d1 = d ++ contribution ''data'' v"
      by (auto simp: api_logged_def split: if_splits sum.splits prod.splits
          dest: api_merge_contribution)
    then show ?thesis
    proof cases
      case ended
      with Cons.prems(2) show ?thesis by simp
    next
      case went_on
      show ?thesis
      proof (cases j)
        case 0
        with went_on show ?thesis by simp
      next
        case (Suc j')
        with Cons.prems(2) went_on have "j' < length evs1" by simp
        from Cons.IH [OF went_on(1) this] went_on Suc show ?thesis by simp
      qed
    qed
  qed
qed

lemma page_layers_given:
  "page_layers ls i ctx d p w = (f, d', p', w', evs) \<Longrightarrow> j < length evs \<Longrightarrow>
   page_given_data (evs ! j) =
     foldl (++) d (map (contribution ''data'' \<circ> page_returned) (take j evs)) \<and>
   page_given_props (evs ! j) =
     foldl (++) p (map (contribution ''props'' \<circ> page_returned) (take j evs))"
proof (induction ls arbitrary: i d p w evs j)
  case Nil
  then show ?case by simp
next
  case (Cons l ls)
  obtain r w1 where l: "l ctx d p w = (r, w1)" by (cases "l ctx d p w")
  show ?case
  proof (cases r)
    case (Inl e)
    with Cons.prems l show ?thesis by auto
  next
    case (Inr v)
    let ?ev = "PageLayerCall i d p (Inr v)"
    from Cons.prems(1) l Inr consider
      (ended) "evs = [?ev]"
      | (went_on) d1 p1 evs1 where "page_layers ls (Suc i) ctx d1 p1 w1 = (f, d', p', w', evs1)"
          "evs = ?ev # evs1" "page_merge d v ''data'' = Inr d1" "page_merge p v ''props'' = Inr p1"
      by (auto simp: page_logged_def split: if_splits sum.splits prod.splits)
    then show ?thesis
    proof cases
      case ended
      with Cons.prems(2) show ?thesis by simp
    next
      case went_on
      note d1 = page_merge_contribution [OF went_on(3)]
        and p1 = page_merge_contribution [OF went_on(4)]
      show ?thesis
      proof (cases j)
        case 0
        with went_on show ?thesis by simp
      next
        case (Suc j')
        with Cons.prems(2) went_on have "j' < length evs1" by simp
        from Cons.IH [OF went_on(1) this] went_on(2) d1 p1 Suc show ?thesis by simp
      qed
    qed
  qed
qed

lemma api_closure_given:
  assumes run: "api_closure ls fn req res w = (r, d, w', evs)"
  shows "evs \<noteq> [] \<and>
    (\<forall>j<length evs. api_given (evs ! j) =
       foldl (++) Map.empty (map (contribution ''data'' \<circ> api_returned) (take j evs)))"
proof -
  obtain f d1 w1 evs1 where loop: "api_layers ls 0 req res Map.empty w = (f, d1, w1, evs1)"
    by (cases "api_layers ls 0 req res Map.empty w")
  note given = api_layers_given [OF loop]
  show ?thesis
  proof (cases f)
    case Next
    obtain r2 w2 where fn: "fn req res d1 w1 = (r2, w2)" by (cases "fn req res d1 w1")
    from run loop Next fn have evs: "evs = evs1 @ [ApiHandlerCall d1 r2]"
      by (auto simp: api_closure_def)
    from loop Next have "api_layers ls 0 req res Map.empty w = (Next, d1, w1, evs1)" by simp
    from api_layers_Next [OF this]
    have d1: "d1 = foldl (++) Map.empty (map (contribution ''data'' \<circ> api_returned) evs1)"
      by simp
    have "api_given (evs ! j) =
        foldl (++) Map.empty (map (contribution ''data'' \<circ> api_returned) (take j evs))"
      if "j < length evs" for j
    proof (cases "j < length evs1")
      case True
      with given [of j] show ?thesis by (simp add: evs nth_append)
    next
      case False
      with that have "j = length evs1" by (simp add: evs)
      then show ?thesis by (simp add: evs d1)
    qed
    then show ?thesis by (simp add: evs)
  next
    case (Raise e)
    with run loop have evs: "evs = evs1" by (simp add: api_closure_def)
    from loop Raise have "evs1 \<noteq> []" by (cases ls) (auto simp: api_logged_def split: prod.splits sum.splits if_splits)
    with given evs show ?thesis by simp
  next
    case (Return v)
    with run loop have evs: "evs = evs1" by (simp add: api_closure_def)
    from loop Return have "evs1 \<noteq> []" by (cases ls) (auto simp: api_logged_def split: prod.splits sum.splits if_splits)
    with given evs show ?thesis by simp
  qed
qed

lemma page_final_events:
  "page_final fn ctx d p w evs = (r, d', p', w', evs') \<Longrightarrow>
   evs' = evs \<or> (\<exists>r'. evs' = evs @ [PageHandlerCall d p r'])"
  by (auto simp: page_final_def Let_def split: option.splits prod.splits sum.splits if_splits)

lemma page_closure_given:
  assumes run: "page_closure ls fn ctx w = (r, d, p, w', evs)"
  shows "\<forall>j<length evs.
      page_given_data (evs ! j) =
        foldl (++) Map.empty (map (contribution ''data'' \<circ> page_returned) (take j evs)) \<and>
      page_given_props (evs ! j) =
        foldl (++) Map.empty (map (contribution ''props'' \<circ> page_returned) (take j evs))"
proof -
  obtain f d1 p1 w1 evs1 where
    loop: "page_layers ls 0 ctx Map.empty Map.empty w = (f, d1, p1, w1, evs1)"
    by (cases "page_layers ls 0 ctx Map.empty Map.empty w")
  note given = page_layers_given [OF loop]
  show ?thesis
  proof (cases f)
    case Next
    with run loop have "page_final fn ctx d1 p1 w1 evs1 = (r, d, p, w', evs)"
      by (simp add: page_closure_def)
    from page_final_events [OF this]
    consider "evs = evs1" | r' where "evs = evs1 @ [PageHandlerCall d1 p1 r']"
      by blast
    then show ?thesis
    proof cases
      case 1
      with given show ?thesis by simp
    next
      case 2
      from loop Next
      have "page_layers ls 0 ctx Map.empty Map.empty w = (Next, d1, p1, w1, evs1)" by simp
      from page_layers_Next [OF this] have acc:
        "d1 = foldl (++) Map.empty (map (contribution ''data'' \<circ> page_returned) evs1)"
        "p1 = foldl (++) Map.empty (map (contribution ''props'' \<circ> page_returned) evs1)"
        by simp_all
      show ?thesis
      proof (intro allI impI)
        fix j assume j: "j < length evs"
        show "page_given_data (evs ! j) =
            foldl (++) Map.empty (map (contribution ''data'' \<circ> page_returned) (take j evs)) \<and>
          page_given_props (evs ! j) =
            foldl (++) Map.empty (map (contribution ''props'' \<circ> page_returned) (take j evs))"
        proof (cases "j < length evs1")
          case True
          with given [of j] show ?thesis by (simp add: 2 nth_append)
        next
          case False
          with j have "j = length evs1" by (simp add: 2)
          then show ?thesis using acc by (simp add: 2)
        qed
      qed
    qed
  next
    case (Raise e)
    with run loop have "evs = evs1" by (simp add: page_closure_def)
    with given show ?thesis by simp
  next
    case (Return v)
    with run loop have "evs = evs1" by (simp add: page_closure_def)
    with given show ?thesis by simp
  qed
qed

subsection \<open>Layers whose results do not depend on the world\<close>

lemma api_layers_same_behaviour:
  assumes "\<forall>l\<in>set ls. \<forall>d0 wa wb. fst (l req res d0 wa) = fst (l req res d0 wb)"
  shows "\<exists>f d' evs wa wb. api_layers ls i req res d w1 = (f, d', wa, evs) \<and>
                          api_layers ls i req res d w2 = (f, d', wb, evs)"
  using assms
proof (induction ls arbitrary: i d w1 w2)
  case Nil
  show ?case by simp
next
  case (Cons l ls)
  obtain r wa where a: "l req res d w1 = (r, wa)" by (cases "l req res d w1")
  obtain r' wb where b: "l req res d w2 = (r', wb)" by (cases "l req res d w2")
  from Cons.prems have "fst (l req res d w1) = fst (l req res d w2)" by simp
  with a b have r: "r' = r" by simp
  have IH: "\<exists>f d' evs wa' wb'. api_layers ls (Suc i) req res d1 wa = (f, d', wa', evs) \<and>
                               api_layers ls (Suc i) req res d1 wb = (f, d', wb', evs)" for d1
    using Cons.IH [of "Suc i" d1 wa wb] Cons.prems by simp
  show ?case
  proof (cases r)
    case (Inl e)
    with a b r show ?thesis by simp
  next
    case (Inr v)
    show ?thesis
    proof (cases "v = Undefined")
      case True
      with IH [of d] a b r Inr show ?thesis by (auto simp: api_logged_def)
    next
      case False
      show ?thesis
      proof (cases "api_stop v")
        case (Inl e)
        with a b r Inr False show ?thesis by (simp add: api_logged_def)
      next
        case stop: (Inr s)
        show ?thesis
        proof (cases s)
          case True
          with a b r Inr False stop show ?thesis by (simp add: api_logged_def)
        next
          case no_stop: False
          show ?thesis
          proof (cases "api_merge d v")
            case (Inl e)
            with a b r Inr False stop no_stop show ?thesis by (simp add: api_logged_def)
          next
            case merged: (Inr d1)
            with IH [of d1] a b r Inr False stop no_stop show ?thesis
              by (auto simp: api_logged_def)
          qed
        qed
      qed
    qed
  qed
qed

lemma api_closure_same_behaviour:
  assumes "\<forall>l\<in>set (fn # ls). \<forall>d0 wa wb. fst (l req res d0 wa) = fst (l req res d0 wb)"
  shows "fst (api_closure ls fn req res w1) = fst (api_closure ls fn req res w2)"
proof -
  from assms have "\<forall>l\<in>set ls. \<forall>d0 wa wb. fst (l req res d0 wa) = fst (l req res d0 wb)"
    by simp
  from api_layers_same_behaviour [OF this, of 0 Map.empty w1 w2]
  obtain f d' evs wa wb where
    1: "api_layers ls 0 req res Map.empty w1 = (f, d', wa, evs)" and
    2: "api_layers ls 0 req res Map.empty w2 = (f, d', wb, evs)" by blast
  from assms have "fst (fn req res d' wa) = fst (fn req res d' wb)" by simp
  then show ?thesis
    by (cases f) (auto simp: api_closure_def 1 2 split: prod.splits)
qed

lemma page_layers_same_behaviour:
  assumes "\<forall>l\<in>set ls. \<forall>d0 p0 wa wb. fst (l ctx d0 p0 wa) = fst (l ctx d0 p0 wb)"
  shows "\<exists>f d' p' evs wa wb. page_layers ls i ctx d p w1 = (f, d', p', wa, evs) \<and>
                             page_layers ls i ctx d p w2 = (f, d', p', wb, evs)"
  using assms
proof (induction ls arbitrary: i d p w1 w2)
  case Nil
  show ?case by simp
next
  case (Cons l ls)
  obtain r wa where a: "l ctx d p w1 = (r, wa)" by (cases "l ctx d p w1")
  obtain r' wb where b: "l ctx d p w2 = (r', wb)" by (cases "l ctx d p w2")
  from Cons.prems have "fst (l ctx d p w1) = fst (l ctx d p w2)" by simp
  with a b have r: "r' = r" by simp
  have IH: "\<exists>f d' p' evs wa' wb'. page_layers ls (Suc i) ctx d1 p1 wa = (f, d', p', wa', evs) \<and>
                                  page_layers ls (Suc i) ctx d1 p1 wb = (f, d', p', wb', evs)"
    for d1 p1
    using Cons.IH [of "Suc i" d1 p1 wa wb] Cons.prems by simp
  show ?case
  proof (cases r)
    case (Inl e)
    with a b r show ?thesis by simp
  next
    case (Inr v)
    show ?thesis
    proof (cases "page_terminal v")
      case (Inl e)
      with a b r Inr show ?thesis by (simp add: page_logged_def)
    next
      case terminal: (Inr t)
      show ?thesis
      proof (cases t)
        case True
        with a b r Inr terminal show ?thesis by (simp add: page_logged_def)
      next
        case False
        from terminal obtain m where m: "v = Obj m" by (auto dest: page_terminal_Inr)
        obtain d1 p1 where merged: "page_merge d v ''data'' = Inr d1"
          "page_merge p v ''props'' = Inr p1"
          by (simp add: m page_merge_Obj)
        with IH [of d1 p1] a b r Inr terminal False show ?thesis
          by (auto simp: page_logged_def)
      qed
    qed
  qed
qed

lemma page_final_same_behaviour:
  assumes "\<forall>f. fn = Some f \<longrightarrow> fst (f ctx d p wa) = fst (f ctx d p wb)"
  shows "fst (page_final fn ctx d p wa evs) = fst (page_final fn ctx d p wb evs)"
proof (cases fn)
  case None
  then show ?thesis by (simp add: page_final_def)
next
  case (Some f)
  obtain r wa' where a: "f ctx d p wa = (r, wa')" by (cases "f ctx d p wa")
  obtain r' wb' where b: "f ctx d p wb = (r', wb')" by (cases "f ctx d p wb")
  from assms Some a b have "r' = r" by simp
  with Some a b show ?thesis
    by (simp add: page_final_def Let_def split: sum.splits)
qed

lemma page_closure_same_behaviour:
  assumes layers: "\<forall>l\<in>set ls. \<forall>d0 p0 wa wb. fst (l ctx d0 p0 wa) = fst (l ctx d0 p0 wb)"
    and final: "\<forall>f. fn = Some f \<longrightarrow> (\<forall>d0 p0 wa wb. fst (f ctx d0 p0 wa) = fst (f ctx d0 p0 wb))"
  shows "fst (page_closure ls fn ctx w1) = fst (page_closure ls fn ctx w2)"
proof -
  from page_layers_same_behaviour [OF layers, of 0 Map.empty Map.empty w1 w2]
  obtain f d' p' evs wa wb where
    1: "page_layers ls 0 ctx Map.empty Map.empty w1 = (f, d', p', wa, evs)" and
    2: "page_layers ls 0 ctx Map.empty Map.empty w2 = (f, d', p', wb, evs)" by blast
  from final have "fst (page_final fn ctx d' p' wa evs) = fst (page_final fn ctx d' p' wb evs)"
    by (intro page_final_same_behaviour) simp
  then show ?thesis
    by (cases f) (simp_all add: page_closure_def 1 2)
qed

text \<open>
  Claim C10. In every invocation of a compiled handler the first call (of a layer, or of
  the final handler when the chain is empty) is given empty accumulators, and every call
  is given exactly the contributions of the earlier calls of the same invocation, merged
  in order: nothing of another invocation is in them. Two invocations of the same
  compiled handler, from whatever worlds (the second from the world the first has left),
  settle with the same result when the layers and the final handler behave alike in both,
  that is when what they return depends on what they are given and not on the world.
\<close>

theorem fresh_accumulators:
  "(api_closure ls fn req res w = (r, d, w', evs) \<longrightarrow>
      evs \<noteq> [] \<and> api_given (hd evs) = Map.empty \<and>
      (\<forall>j<length evs. api_given (evs ! j) =
         foldl (++) Map.empty (map (contribution ''data'' \<circ> api_returned) (take j evs))))
 \<and> ((\<forall>l\<in>set (fn # ls). \<forall>d0 wa wb. fst (l req res d0 wa) = fst (l req res d0 wb)) \<longrightarrow>
      fst (api_closure ls fn req res w1) = fst (api_closure ls fn req res w2))
 \<and> (page_closure pls pfn ctx pw = (pr, pd, pp, pw', pevs) \<longrightarrow>
      (\<forall>j<length pevs.
         page_given_data (pevs ! j) =
           foldl (++) Map.empty (map (contribution ''data'' \<circ> page_returned) (take j pevs)) \<and>
         page_given_props (pevs ! j) =
           foldl (++) Map.empty (map (contribution ''props'' \<circ> page_returned) (take j pevs))))
 \<and> ((\<forall>l\<in>set pls \<union> set_option pfn.
        \<forall>d0 p0 wa wb. fst (l ctx d0 p0 wa) = fst (l ctx d0 p0 wb)) \<longrightarrow>
      fst (page_closure pls pfn ctx pw1) = fst (page_closure pls pfn ctx pw2))"
proof (intro conjI impI)
  assume run: "api_closure ls fn req res w = (r, d, w', evs)"
  from api_closure_given [OF run]
  show "evs \<noteq> []"
    and all: "\<forall>j<length evs. api_given (evs ! j) =
         foldl (++) Map.empty (map (contribution ''data'' \<circ> api_returned) (take j evs))"
    by simp_all
  from api_closure_given [OF run] have "0 < length evs" by simp
  with all have "api_given (evs ! 0) = Map.empty" by fastforce
  with \<open>0 < length evs\<close> show "api_given (hd evs) = Map.empty" by (simp add: hd_conv_nth)
next
  assume "\<forall>l\<in>set (fn # ls). \<forall>d0 wa wb. fst (l req res d0 wa) = fst (l req res d0 wb)"
  then show "fst (api_closure ls fn req res w1) = fst (api_closure ls fn req res w2)"
    by (rule api_closure_same_behaviour)
next
  assume "page_closure pls pfn ctx pw = (pr, pd, pp, pw', pevs)"
  then show "\<forall>j<length pevs.
         page_given_data (pevs ! j) =
           foldl (++) Map.empty (map (contribution ''data'' \<circ> page_returned) (take j pevs)) \<and>
         page_given_props (pevs ! j) =
           foldl (++) Map.empty (map (contribution ''props'' \<circ> page_returned) (take j pevs))"
    by (rule page_closure_given)
next
  assume "\<forall>l\<in>set pls \<union> set_option pfn.
        \<forall>d0 p0 wa wb. fst (l ctx d0 p0 wa) = fst (l ctx d0 p0 wb)"
  then show "fst (page_closure pls pfn ctx pw1) = fst (page_closure pls pfn ctx pw2)"
    by (intro page_closure_same_behaviour) auto
qed

text \<open>
  The instance: a handler invoked twice, the second time in the world the first
  invocation has left. The first call of the second invocation is given an empty
  \<^verbatim>\<open>data\<close> (and \<^verbatim>\<open>props\<close>) although the first invocation ended with \<^verbatim>\<open>a\<close> set.
\<close>

theorem fresh_accumulators_witness:
  "api_closure [api_const (with_data [''a'' \<mapsto> Str ''a''])] (api_const Undefined) () () 0 =
     (Inr Undefined, [''a'' \<mapsto> Str ''a''], 2,
      [ApiLayerCall 0 Map.empty (Inr (with_data [''a'' \<mapsto> Str ''a''])),
       ApiHandlerCall [''a'' \<mapsto> Str ''a''] (Inr Undefined)])
 \<and> api_closure [api_const (with_data [''a'' \<mapsto> Str ''a''])] (api_const Undefined) () () 2 =
     (Inr Undefined, [''a'' \<mapsto> Str ''a''], 4,
      [ApiLayerCall 0 Map.empty (Inr (with_data [''a'' \<mapsto> Str ''a''])),
       ApiHandlerCall [''a'' \<mapsto> Str ''a''] (Inr Undefined)])
 \<and> api_given (hd [ApiLayerCall 0 Map.empty (Inr (with_data [''a'' \<mapsto> Str ''a''])),
                   ApiHandlerCall [''a'' \<mapsto> Str ''a''] (Inr Undefined)]) = Map.empty
 \<and> fst (api_closure [api_const (with_data [''a'' \<mapsto> Str ''a''])] (api_const Undefined) () () 0) =
   fst (api_closure [api_const (with_data [''a'' \<mapsto> Str ''a''])] (api_const Undefined) () () 2)
 \<and> page_closure [page_const (with_props [''a'' \<mapsto> Str ''a1''])] None () 0 =
     (Inr (props_result [''a'' \<mapsto> Str ''a1'']), Map.empty, [''a'' \<mapsto> Str ''a1''], 1,
      [PageLayerCall 0 Map.empty Map.empty (Inr (with_props [''a'' \<mapsto> Str ''a1'']))])
 \<and> page_closure [page_const (with_props [''a'' \<mapsto> Str ''a1''])] None () 1 =
     (Inr (props_result [''a'' \<mapsto> Str ''a1'']), Map.empty, [''a'' \<mapsto> Str ''a1''], 2,
      [PageLayerCall 0 Map.empty Map.empty (Inr (with_props [''a'' \<mapsto> Str ''a1'']))])
 \<and> fst (page_closure [page_const (with_props [''a'' \<mapsto> Str ''a1''])] None () 0) =
   fst (page_closure [page_const (with_props [''a'' \<mapsto> Str ''a1''])] None () 1)"
proof -
  let ?ls = "[api_const (with_data [''a'' \<mapsto> Str ''a''])]"
  let ?pls = "[page_const (with_props [''a'' \<mapsto> Str ''a1''])]"
  let ?evs = "[ApiLayerCall 0 Map.empty (Inr (with_data [''a'' \<mapsto> Str ''a''])),
       ApiHandlerCall [''a'' \<mapsto> Str ''a''] (Inr Undefined)]"
  let ?pevs = "[PageLayerCall 0 Map.empty Map.empty (Inr (with_props [''a'' \<mapsto> Str ''a1'']))]"
  have first: "api_closure ?ls (api_const Undefined) () () 0 =
      (Inr Undefined, [''a'' \<mapsto> Str ''a''], 2, ?evs)"
    and second: "api_closure ?ls (api_const Undefined) () () 2 =
      (Inr Undefined, [''a'' \<mapsto> Str ''a''], 4, ?evs)"
    by (simp_all add: api_closure_def api_const_def with_data_def api_stop_Obj api_merge_Obj
        object_assign_simps api_logged_def)
  have pfirst: "page_closure ?pls None () 0 =
      (Inr (props_result [''a'' \<mapsto> Str ''a1'']), Map.empty, [''a'' \<mapsto> Str ''a1''], 1, ?pevs)"
    and psecond: "page_closure ?pls None () 1 =
      (Inr (props_result [''a'' \<mapsto> Str ''a1'']), Map.empty, [''a'' \<mapsto> Str ''a1''], 2, ?pevs)"
    by (simp_all add: page_closure_def page_final_def page_const_def with_props_def
        page_terminal_Obj page_merge_Obj object_assign_simps page_logged_def)
  have alike: "\<forall>l\<in>set (api_const Undefined # ?ls).
      \<forall>d0 wa wb. fst (l () () d0 wa) = fst (l () () d0 wb)"
    by (simp add: api_const_def)
  have palike: "\<forall>l\<in>set ?pls \<union> set_option None.
      \<forall>d0 p0 wa wb. fst (l () d0 p0 wa) = fst (l () d0 p0 wb)"
    by (simp add: page_const_def)
  note inst = fresh_accumulators
    [where ls = ?ls and fn = "api_const Undefined" and req = "()" and res = "()" and w = 2
       and r = "Inr Undefined" and d = "[''a'' \<mapsto> Str ''a'']" and w' = 4 and evs = ?evs
       and ?w1.0 = 0 and ?w2.0 = 2
       and pls = ?pls and pfn = None and ctx = "()" and pw = 1
       and pr = "Inr (props_result [''a'' \<mapsto> Str ''a1''])" and pd = Map.empty
       and pp = "[''a'' \<mapsto> Str ''a1'']" and pw' = 2 and pevs = ?pevs
       and ?pw1.0 = 0 and ?pw2.0 = 1]
  from inst second alike have "api_given (hd ?evs) = Map.empty"
    and "fst (api_closure ?ls (api_const Undefined) () () 0) =
         fst (api_closure ?ls (api_const Undefined) () () 2)"
    by blast+
  moreover from inst palike
  have "fst (page_closure ?pls None () 0) = fst (page_closure ?pls None () 1)"
    by blast
  ultimately show ?thesis using first second pfirst psecond by blast
qed

section \<open>Factories are extended without being changed\<close>






end
